theory Spec2Isabelle
  imports Main
begin

section \<open>Strings\<close>

text \<open>
  Addresses are JavaScript strings. The router canonicalises them with
  \<^verbatim>\<open>toLowerCase()\<close>; the model lowers the ASCII letters of a byte string and
  leaves every other byte as it is (addresses are hexadecimal ASCII text).
  \<^verbatim>\<open>toUpperCase()\<close> is the mirror image.
\<close>

definition lower_char :: "char \<Rightarrow> char" where
  "lower_char c =
     (if 65 \<le> (of_char c :: nat) \<and> (of_char c :: nat) \<le> 90
      then char_of ((of_char c :: nat) + 32) else c)"

definition upper_char :: "char \<Rightarrow> char" where
  "upper_char c =
     (if 97 \<le> (of_char c :: nat) \<and> (of_char c :: nat) \<le> 122
      then char_of ((of_char c :: nat) - 32) else c)"

definition toLowerCase :: "string \<Rightarrow> string" where
  "toLowerCase s = map lower_char s"

definition toUpperCase :: "string \<Rightarrow> string" where
  "toUpperCase s = map upper_char s"

text \<open>
  A value read from a request body or from the environment may be missing
  (\<^verbatim>\<open>undefined\<close>, \<^verbatim>\<open>null\<close>): \<open>None\<close>. JavaScript's \<^verbatim>\<open>if (x)\<close> on such
  a value is true for a non-empty string only.
\<close>

definition truthy :: "string option \<Rightarrow> bool" where
  "truthy x = (case x of None \<Rightarrow> False | Some s \<Rightarrow> s \<noteq> [])"

text \<open>\<^verbatim>\<open>s.split(',')\<close>: the pieces between the separators; the empty string gives one empty piece.\<close>

fun split :: "char \<Rightarrow> string \<Rightarrow> string list" where
  "split c [] = [[]]"
| "split c (x # xs) =
     (if x = c then [] # split c xs
      else (case split c xs of [] \<Rightarrow> [[x]] | w # ws \<Rightarrow> (x # w) # ws))"

section \<open>The relational store\<close>

text \<open>
  Timestamps are integers (seconds); \<^verbatim>\<open>CURRENT_TIMESTAMP\<close> is the argument \<open>now\<close> of
  every statement. The surrogate \<^verbatim>\<open>id SERIAL\<close> columns are left out: no statement of
  the router or of the migrations reads them. Column width limits (\<^verbatim>\<open>VARCHAR(n)\<close>) are
  not modelled either; a value that breaks one makes the statement raise, which is the
  same branch as the violations modelled below.
\<close>

type_synonym timestamp = int

definition interval_24_hours :: int where
  "interval_24_hours = 86400"

text \<open>
  The table \<^verbatim>\<open>tokens\<close> is created outside the migrations at hand. The router and the
  triggers read three of its columns; \<^verbatim>\<open>contract_address\<close> is the target of the foreign
  keys of \<^verbatim>\<open>token_metadata\<close> and \<^verbatim>\<open>token_metadata_history\<close>, hence unique.
\<close>

record token =
  contract_address :: string
  owner_address :: string
  network_id :: string

text \<open>The descriptive columns shared by \<^verbatim>\<open>token_metadata\<close>, \<^verbatim>\<open>temporary_metadata\<close> and the request bodies.\<close>

record descriptive =
  name :: "string option"
  symbol :: "string option"
  description :: "string option"
  website_url :: "string option"
  twitter_url :: "string option"
  telegram_url :: "string option"
  discord_url :: "string option"
  whitepaper_url :: "string option"
  github_url :: "string option"
  tags :: "string list option"

text \<open>Table \<^verbatim>\<open>token_metadata\<close> (migrations delicate_bird and rough_ocean).\<close>

record metadata_row = descriptive +
  token_address :: string
  logo_url :: "string option"
  created_at :: timestamp
  updated_at :: timestamp
  last_updated_by :: "string option"
  update_count :: int
  verified :: bool

text \<open>Table \<^verbatim>\<open>temporary_metadata\<close>.\<close>

record temp_row = descriptive +
  session_id :: string
  creator_address :: string
  logo_data :: "string option"
  temp_created_at :: timestamp
  expires_at :: timestamp

text \<open>Table \<^verbatim>\<open>token_metadata_history\<close>; \<^verbatim>\<open>previous_data\<close> holds \<^verbatim>\<open>row_to_json(OLD)\<close>, the whole old row.\<close>

record history_row =
  history_token_address :: string
  updated_by :: string
  update_timestamp :: timestamp
  previous_data :: metadata_row

record db =
  tokens :: "token list"
  token_metadata :: "metadata_row list"
  temporary_metadata :: "temp_row list"
  token_metadata_history :: "history_row list"

subsection \<open>Queries\<close>

text \<open>\<^verbatim>\<open>SELECT ... FROM tokens WHERE contract_address = $1\<close>\<close>

definition select_tokens :: "db \<Rightarrow> string \<Rightarrow> token list" where
  "select_tokens d a = filter (\<lambda>t. contract_address t = a) (tokens d)"

text \<open>\<^verbatim>\<open>SELECT * FROM token_metadata WHERE token_address = $1\<close>\<close>

definition select_token_metadata :: "db \<Rightarrow> string \<Rightarrow> metadata_row list" where
  "select_token_metadata d a = filter (\<lambda>r. token_address r = a) (token_metadata d)"

text \<open>\<^verbatim>\<open>SELECT * FROM temporary_metadata WHERE session_id = $1\<close>\<close>

definition select_session :: "db \<Rightarrow> string \<Rightarrow> temp_row list" where
  "select_session d s = filter (\<lambda>t. session_id t = s) (temporary_metadata d)"

text \<open>\<^verbatim>\<open>SELECT * FROM temporary_metadata WHERE session_id = $1 AND creator_address = $2\<close>\<close>

definition select_session_of :: "db \<Rightarrow> string \<Rightarrow> string \<Rightarrow> temp_row list" where
  "select_session_of d s u =
     filter (\<lambda>t. session_id t = s \<and> creator_address t = u) (temporary_metadata d)"

text \<open>\<^verbatim>\<open>SELECT * FROM token_metadata_history WHERE token_address = $1 ORDER BY update_timestamp DESC\<close>\<close>

definition select_history :: "db \<Rightarrow> string \<Rightarrow> history_row list" where
  "select_history d a =
     sort_key (\<lambda>h. - update_timestamp h)
       (filter (\<lambda>h. history_token_address h = a) (token_metadata_history d))"

subsection \<open>Triggers on \<^verbatim>\<open>token_metadata\<close>\<close>

text \<open>
  \<^verbatim>\<open>update_count\<close> is an \<^verbatim>\<open>INTEGER\<close>: \<^verbatim>\<open>update_count + 1\<close> beyond the largest 32-bit
  value raises ("integer out of range"), it does not wrap.
\<close>

definition int4_max :: int where
  "int4_max = 2147483647"

text \<open>
  \<^verbatim>\<open>track_metadata_updates\<close>, BEFORE UPDATE FOR EACH ROW: inserts the history row
  and overrides \<^verbatim>\<open>NEW.update_count\<close>. The INSERT raises when \<^verbatim>\<open>NEW.last_updated_by\<close>
  is NULL (\<^verbatim>\<open>updated_by ... NOT NULL\<close>) or when the token is not in \<^verbatim>\<open>tokens\<close>
  (foreign key), and \<^verbatim>\<open>OLD.update_count + 1\<close> raises when it leaves the integer range;
  then the result is \<open>None\<close>. (Where the statement itself assigns
  \<^verbatim>\<open>update_count = update_count + 1\<close>, that expression raises on the same rows.)
\<close>

definition track_metadata_updates ::
  "timestamp \<Rightarrow> token list \<Rightarrow> metadata_row \<Rightarrow> metadata_row \<Rightarrow> (history_row \<times> metadata_row) option" where
  "track_metadata_updates now toks old new =
     (case last_updated_by new of
        None \<Rightarrow> None
      | Some who \<Rightarrow>
          if token_address old \<notin> set (map contract_address toks) then None
          else if int4_max < update_count old + 1 then None
          else Some (\<lparr>history_token_address = token_address old, updated_by = who,
                      update_timestamp = now, previous_data = old\<rparr>,
                     new\<lparr>update_count := update_count old + 1\<rparr>))"

text \<open>\<^verbatim>\<open>update_modified_column\<close>, BEFORE UPDATE FOR EACH ROW.\<close>

definition update_modified_column :: "timestamp \<Rightarrow> metadata_row \<Rightarrow> metadata_row" where
  "update_modified_column now new = new\<lparr>updated_at := now\<rparr>"

text \<open>
  Both triggers fire before each row update, in the order of their names:
  \<^verbatim>\<open>track_token_metadata_updates\<close>, then \<^verbatim>\<open>update_token_metadata_modtime\<close>.
\<close>

definition before_update ::
  "timestamp \<Rightarrow> token list \<Rightarrow> metadata_row \<Rightarrow> metadata_row \<Rightarrow> (history_row \<times> metadata_row) option" where
  "before_update now toks old new =
     (case track_metadata_updates now toks old new of
        None \<Rightarrow> None
      | Some (h, new') \<Rightarrow> Some (h, update_modified_column now new'))"

text \<open>
  \<^verbatim>\<open>UPDATE token_metadata SET ... WHERE token_address = $k RETURNING *\<close>: every row with
  the key gets the assignments \<open>f\<close> and passes the triggers. The result is the new
  table, the returned rows and the history rows the trigger wrote; \<open>None\<close> when a
  trigger raised, which undoes the whole statement.
\<close>

fun update_rows ::
  "timestamp \<Rightarrow> token list \<Rightarrow> string \<Rightarrow> (metadata_row \<Rightarrow> metadata_row) \<Rightarrow> metadata_row list
     \<Rightarrow> (metadata_row list \<times> metadata_row list \<times> history_row list) option" where
  "update_rows now toks k f [] = Some ([], [], [])"
| "update_rows now toks k f (r # rs) =
     (if token_address r = k then
        (case before_update now toks r (f r) of
           None \<Rightarrow> None
         | Some (h, r') \<Rightarrow>
             (case update_rows now toks k f rs of
                None \<Rightarrow> None
              | Some (tbl, ret, hs) \<Rightarrow> Some (r' # tbl, r' # ret, h # hs)))
      else
        (case update_rows now toks k f rs of
           None \<Rightarrow> None
         | Some (tbl, ret, hs) \<Rightarrow> Some (r # tbl, ret, hs)))"

definition update_token_metadata ::
  "timestamp \<Rightarrow> string \<Rightarrow> (metadata_row \<Rightarrow> metadata_row) \<Rightarrow> db \<Rightarrow> (metadata_row list \<times> db) option" where
  "update_token_metadata now k f d =
     (case update_rows now (tokens d) k f (token_metadata d) of
        None \<Rightarrow> None
      | Some (tbl, ret, hs) \<Rightarrow>
          Some (ret, d\<lparr>token_metadata := tbl,
                       token_metadata_history := token_metadata_history d @ hs\<rparr>))"

text \<open>
  \<^verbatim>\<open>INSERT INTO token_metadata (...) VALUES (...) RETURNING *\<close>: raises on a duplicate
  \<^verbatim>\<open>token_address\<close> (UNIQUE) and on a token that is not in \<^verbatim>\<open>tokens\<close> (foreign key).
\<close>

definition insert_token_metadata :: "metadata_row \<Rightarrow> db \<Rightarrow> (metadata_row \<times> db) option" where
  "insert_token_metadata r d =
     (if token_address r \<in> set (map token_address (token_metadata d)) then None
      else if token_address r \<notin> set (map contract_address (tokens d)) then None
      else Some (r, d\<lparr>token_metadata := token_metadata d @ [r]\<rparr>))"

text \<open>
  The column lists the statements share. \<open>set_descriptive\<close> is
  \<^verbatim>\<open>SET name = $1, symbol = $2, description = $3, website_url = ..., tags = $11\<close>;
  \<open>new_metadata_row\<close> is the row written by
  \<^verbatim>\<open>INSERT INTO token_metadata (token_address, name, ..., tags, last_updated_by, update_count)\<close>,
  with the column defaults for \<^verbatim>\<open>created_at\<close>, \<^verbatim>\<open>updated_at\<close> and \<^verbatim>\<open>verified\<close>.
\<close>

definition set_descriptive :: "'a descriptive_scheme \<Rightarrow> metadata_row \<Rightarrow> metadata_row" where
  "set_descriptive s r =
     r\<lparr>name := name s, symbol := symbol s, description := description s,
       website_url := website_url s, twitter_url := twitter_url s,
       telegram_url := telegram_url s, discord_url := discord_url s,
       whitepaper_url := whitepaper_url s, github_url := github_url s, tags := tags s\<rparr>"

definition new_metadata_row ::
  "timestamp \<Rightarrow> string \<Rightarrow> 'a descriptive_scheme \<Rightarrow> string option \<Rightarrow> string \<Rightarrow> int \<Rightarrow> metadata_row" where
  "new_metadata_row now a s logo who n =
     \<lparr>name = name s, symbol = symbol s, description = description s,
      website_url = website_url s, twitter_url = twitter_url s,
      telegram_url = telegram_url s, discord_url = discord_url s,
      whitepaper_url = whitepaper_url s, github_url = github_url s, tags = tags s,
      token_address = a, logo_url = logo, created_at = now, updated_at = now,
      last_updated_by = Some who, update_count = n, verified = False\<rparr>"

subsection \<open>Statements on \<^verbatim>\<open>temporary_metadata\<close>\<close>

text \<open>The body of \<^verbatim>\<open>POST /temporary\<close>.\<close>

record temp_body = descriptive +
  body_sessionId :: "string option"
  body_logoData :: "string option"

text \<open>
  \<^verbatim>\<open>UPDATE temporary_metadata SET ..., expires_at = (CURRENT_TIMESTAMP + INTERVAL '24 hours')
  WHERE session_id = $12 RETURNING *\<close>
\<close>

definition refresh_session :: "timestamp \<Rightarrow> temp_body \<Rightarrow> temp_row \<Rightarrow> temp_row" where
  "refresh_session now b t =
     t\<lparr>name := name b, symbol := symbol b, description := description b,
       website_url := website_url b, twitter_url := twitter_url b,
       telegram_url := telegram_url b, discord_url := discord_url b,
       whitepaper_url := whitepaper_url b, github_url := github_url b, tags := tags b,
       logo_data := body_logoData b, expires_at := now + interval_24_hours\<rparr>"

definition update_temporary_metadata :: "timestamp \<Rightarrow> string \<Rightarrow> temp_body \<Rightarrow> db \<Rightarrow> temp_row list \<times> db" where
  "update_temporary_metadata now sid b d =
     (map (refresh_session now b) (filter (\<lambda>t. session_id t = sid) (temporary_metadata d)),
      d\<lparr>temporary_metadata :=
           map (\<lambda>t. if session_id t = sid then refresh_session now b t else t)
             (temporary_metadata d)\<rparr>)"

text \<open>\<^verbatim>\<open>INSERT INTO temporary_metadata (...) VALUES (...) RETURNING *\<close>; \<^verbatim>\<open>session_id\<close> is UNIQUE.\<close>

definition insert_temporary_metadata :: "timestamp \<Rightarrow> string \<Rightarrow> string \<Rightarrow> temp_body \<Rightarrow> db \<Rightarrow> (temp_row \<times> db) option" where
  "insert_temporary_metadata now sid who b d =
     (if sid \<in> set (map session_id (temporary_metadata d)) then None
      else
        (let t = \<lparr>name = name b, symbol = symbol b, description = description b,
                  website_url = website_url b, twitter_url = twitter_url b,
                  telegram_url = telegram_url b, discord_url = discord_url b,
                  whitepaper_url = whitepaper_url b, github_url = github_url b, tags = tags b,
                  session_id = sid, creator_address = who, logo_data = body_logoData b,
                  temp_created_at = now, expires_at = now + interval_24_hours\<rparr>
         in Some (t, d\<lparr>temporary_metadata := temporary_metadata d @ [t]\<rparr>)))"

text \<open>\<^verbatim>\<open>DELETE FROM temporary_metadata WHERE session_id = $1\<close>\<close>

definition delete_session :: "string \<Rightarrow> db \<Rightarrow> db" where
  "delete_session sid d =
     d\<lparr>temporary_metadata := filter (\<lambda>t. session_id t \<noteq> sid) (temporary_metadata d)\<rparr>"

text \<open>\<^verbatim>\<open>cleanup_expired_metadata()\<close>: \<^verbatim>\<open>DELETE FROM temporary_metadata WHERE expires_at < CURRENT_TIMESTAMP\<close>\<close>

definition cleanup_expired_metadata :: "timestamp \<Rightarrow> db \<Rightarrow> db" where
  "cleanup_expired_metadata now d =
     d\<lparr>temporary_metadata := filter (\<lambda>t. \<not> expires_at t < now) (temporary_metadata d)\<rparr>"

subsection \<open>Trigger on \<^verbatim>\<open>tokens\<close>\<close>

text \<open>
  \<^verbatim>\<open>ORDER BY t.created_at DESC LIMIT 1\<close>: a row with the greatest \<^verbatim>\<open>created_at\<close>.
  SQL leaves the choice among equal timestamps open; the model takes the first such
  row of the table.
\<close>

fun newest :: "temp_row list \<Rightarrow> temp_row option" where
  "newest [] = None"
| "newest (t # ts) =
     (case newest ts of
        None \<Rightarrow> Some t
      | Some t' \<Rightarrow> if temp_created_at t < temp_created_at t' then Some t' else Some t)"

text \<open>
  \<^verbatim>\<open>link_temporary_metadata()\<close>, AFTER INSERT ON tokens FOR EACH ROW. \<open>new\<close> is the
  inserted row. The INSERT ... SELECT writes one row or none; then the DELETE runs.
  \<^verbatim>\<open>NEW.owner_address\<close> and \<^verbatim>\<open>NEW.contract_address\<close> are used as they are stored.
\<close>

definition live_sessions :: "timestamp \<Rightarrow> string \<Rightarrow> temp_row list \<Rightarrow> temp_row list" where
  "live_sessions now owner ts = filter (\<lambda>t. creator_address t = owner \<and> now < expires_at t) ts"

definition link_temporary_metadata :: "timestamp \<Rightarrow> token \<Rightarrow> db \<Rightarrow> db option" where
  "link_temporary_metadata now new d =
     (case (case newest (live_sessions now (owner_address new) (temporary_metadata d)) of
              None \<Rightarrow> Some d
            | Some t \<Rightarrow>
                map_option snd
                  (insert_token_metadata
                     (new_metadata_row now (contract_address new) t None (owner_address new) 1) d)) of
        None \<Rightarrow> None
      | Some d' \<Rightarrow>
          Some (d'\<lparr>temporary_metadata :=
                     filter (\<lambda>t. \<not> (creator_address t = owner_address new \<and> now < expires_at t))
                       (temporary_metadata d')\<rparr>))"

text \<open>
  An INSERT of one row into \<^verbatim>\<open>tokens\<close> (issued by code outside the router): the row
  is added unless its \<^verbatim>\<open>contract_address\<close> is taken, then the trigger runs; when the
  trigger raises, the insert is undone.
\<close>

definition insert_token :: "timestamp \<Rightarrow> token \<Rightarrow> db \<Rightarrow> db option" where
  "insert_token now new d =
     (if contract_address new \<in> set (map contract_address (tokens d)) then None
      else link_temporary_metadata now new (d\<lparr>tokens := tokens d @ [new]\<rparr>))"

section \<open>The router\<close>

text \<open>
  A handler takes the store and the request and returns the response and the store it
  leaves. \<open>Error\<close> is \<^verbatim>\<open>res.status(n).json({ error: msg })\<close>; the other constructors are
  the bodies of the 200 answers. \<open>NoBody\<close> is \<^verbatim>\<open>res.json(undefined)\<close>, the answer when
  \<^verbatim>\<open>result.rows[0]\<close> does not exist. A statement that raises lands in the handler's
  \<^verbatim>\<open>catch\<close>: status 500, with the store as the failed statement left it.
  \<open>user_address\<close> is \<^verbatim>\<open>req.user.address\<close>, set by the authentication middleware.
\<close>

datatype response =
    Error nat string
  | Row metadata_row
  | TempRow temp_row
  | History "history_row list"
  | Logo string
  | NoBody

definition first_row :: "metadata_row list \<Rightarrow> response" where
  "first_row rows = (case rows of [] \<Rightarrow> NoBody | r # _ \<Rightarrow> Row r)"

text \<open>
  What the router reads from outside the store: the process environment, the pinning
  service (\<^verbatim>\<open>client.put\<close>, from file name and content to a CID) and the chain
  (\<^verbatim>\<open>contract.owner()\<close> at an RPC endpoint). \<open>None\<close> from the last two stands for an
  exception inside the surrounding \<^verbatim>\<open>try\<close> block.
\<close>

record env =
  process_env :: "string \<Rightarrow> string option"
  ipfs_put :: "string \<Rightarrow> string \<Rightarrow> string option"
  contract_owner :: "string \<Rightarrow> string \<Rightarrow> string option"

definition getWeb3StorageClient :: "env \<Rightarrow> bool" where
  "getWeb3StorageClient e = truthy (process_env e ''WEB3_STORAGE_TOKEN'')"

definition ipfs_url :: "string \<Rightarrow> string \<Rightarrow> string" where
  "ipfs_url cid fileName = ''https://'' @ cid @ ''.ipfs.dweb.link/'' @ fileName"

subsection \<open>\<^verbatim>\<open>POST /temporary\<close>\<close>

definition temporary_handler :: "timestamp \<Rightarrow> db \<Rightarrow> temp_body \<Rightarrow> string \<Rightarrow> response \<times> db" where
  "temporary_handler now d body user_address =
     (let userAddress = toLowerCase user_address in
      case body_sessionId body of
        None \<Rightarrow> (Error 400 ''Session ID is required'', d)
      | Some sid \<Rightarrow>
          if sid = [] then (Error 400 ''Session ID is required'', d)
          else
            (case select_session d sid of
               _ # _ \<Rightarrow>
                 (case update_temporary_metadata now sid body d of
                    (rows, d') \<Rightarrow> ((case rows of [] \<Rightarrow> NoBody | t # _ \<Rightarrow> TempRow t), d'))
             | [] \<Rightarrow>
                 (case insert_temporary_metadata now sid userAddress body d of
                    None \<Rightarrow> (Error 500 ''Failed to save temporary metadata'', d)
                  | Some (t, d') \<Rightarrow> (TempRow t, d'))))"

subsection \<open>\<^verbatim>\<open>POST /link\<close>\<close>

text \<open>
  The logo of a session: pinned when the session has one and the client is configured.
  The source decodes \<^verbatim>\<open>logo_data\<close> and writes it to a temporary file first; the model
  hands \<^verbatim>\<open>logo_data\<close> itself to the client, which is a parameter, and \<open>None\<close> from
  the client stands for any exception in the block (the handler then links without a
  logo).
\<close>

definition link_logo :: "env \<Rightarrow> string \<Rightarrow> temp_row \<Rightarrow> string option" where
  "link_logo e tokenAddress tempMetadata =
     (case logo_data tempMetadata of
        None \<Rightarrow> None
      | Some base64 \<Rightarrow>
          if base64 = [] then None
          else if getWeb3StorageClient e then
            (let fileName = ''token-logo-'' @ toLowerCase tokenAddress @ ''.png'' in
             case ipfs_put e fileName base64 of
               None \<Rightarrow> None
             | Some cid \<Rightarrow> Some (ipfs_url cid fileName))
          else None)"

definition link_handler ::
  "env \<Rightarrow> timestamp \<Rightarrow> db \<Rightarrow> string option \<Rightarrow> string option \<Rightarrow> string \<Rightarrow> response \<times> db" where
  "link_handler e now d tokenAddress sessionId user_address =
     (let userAddress = toLowerCase user_address in
      case tokenAddress of
        None \<Rightarrow> (Error 400 ''Token address and session ID are required'', d)
      | Some ta \<Rightarrow>
     (case sessionId of
        None \<Rightarrow> (Error 400 ''Token address and session ID are required'', d)
      | Some sid \<Rightarrow>
          if ta = [] \<or> sid = [] then (Error 400 ''Token address and session ID are required'', d)
          else
            (case select_tokens d (toLowerCase ta) of
               [] \<Rightarrow> (Error 404 ''Token not found'', d)
             | tok # _ \<Rightarrow>
                 if toLowerCase (owner_address tok) \<noteq> userAddress
                 then (Error 403 ''Only the token owner can link metadata'', d)
                 else
                   (case select_session_of d sid userAddress of
                      [] \<Rightarrow> (Error 404 ''Temporary metadata not found'', d)
                    | tempMetadata # _ \<Rightarrow>
                        (let logoUrl = link_logo e ta tempMetadata in
                         case select_token_metadata d (toLowerCase ta) of
                           _ # _ \<Rightarrow>
                             (case update_token_metadata now (toLowerCase ta)
                                     (\<lambda>r. (set_descriptive tempMetadata r)
                                        \<lparr>logo_url := (case logoUrl of None \<Rightarrow> logo_url r | Some u \<Rightarrow> Some u),
                                         last_updated_by := Some userAddress,
                                         update_count := update_count r + 1,
                                         updated_at := now\<rparr>) d of
                                None \<Rightarrow> (Error 500 ''Failed to link metadata'', d)
                              | Some (rows, d') \<Rightarrow> (first_row rows, delete_session sid d'))
                         | [] \<Rightarrow>
                             (case insert_token_metadata
                                     (new_metadata_row now (toLowerCase ta) tempMetadata logoUrl userAddress 1) d of
                                None \<Rightarrow> (Error 500 ''Failed to link metadata'', d)
                              | Some (r, d') \<Rightarrow> (Row r, delete_session sid d')))))))"

subsection \<open>\<^verbatim>\<open>GET /:tokenAddress/history\<close>\<close>

definition history_handler :: "db \<Rightarrow> string \<Rightarrow> string \<Rightarrow> response" where
  "history_handler d tokenAddress user_address =
     (let userAddress = toLowerCase user_address in
      case select_tokens d (toLowerCase tokenAddress) of
        [] \<Rightarrow> Error 404 ''Token not found''
      | tok # _ \<Rightarrow>
          if toLowerCase (owner_address tok) \<noteq> userAddress
          then Error 403 ''Only the token owner can view metadata history''
          else History (select_history d (toLowerCase tokenAddress)))"

subsection \<open>\<^verbatim>\<open>POST /:tokenAddress/verify\<close>\<close>

definition adminAddresses :: "env \<Rightarrow> string list" where
  "adminAddresses e =
     map toLowerCase
       (split CHR '','' (case process_env e ''ADMIN_ADDRESSES'' of None \<Rightarrow> [] | Some s \<Rightarrow> s))"

definition verify_handler :: "env \<Rightarrow> timestamp \<Rightarrow> db \<Rightarrow> string \<Rightarrow> string \<Rightarrow> response \<times> db" where
  "verify_handler e now d tokenAddress user_address =
     (let userAddress = toLowerCase user_address in
      if userAddress \<notin> set (adminAddresses e)
      then (Error 403 ''Only admins can verify metadata'', d)
      else
        (case update_token_metadata now (toLowerCase tokenAddress)
                (\<lambda>r. r\<lparr>verified := True, updated_at := now\<rparr>) d of
           None \<Rightarrow> (Error 500 ''Failed to verify metadata'', d)
         | Some (rows, d') \<Rightarrow>
             (case rows of
                [] \<Rightarrow> (Error 404 ''Token metadata not found'', d')
              | r # _ \<Rightarrow> (Row r, d'))))"

subsection \<open>\<^verbatim>\<open>GET /:tokenAddress\<close>\<close>

definition get_handler :: "db \<Rightarrow> string \<Rightarrow> response" where
  "get_handler d tokenAddress =
     (case select_token_metadata d (toLowerCase tokenAddress) of
        [] \<Rightarrow> Error 404 ''Token metadata not found''
      | r # _ \<Rightarrow> Row r)"

subsection \<open>\<^verbatim>\<open>POST /\<close>\<close>

text \<open>The body of \<^verbatim>\<open>POST /\<close> and \<^verbatim>\<open>PUT /:tokenAddress\<close>.\<close>

record metadata_body = descriptive +
  body_tokenAddress :: "string option"
  body_logoUrl :: "string option"

text \<open>
  The ownership block runs when \<^verbatim>\<open>metadata.tokenAddress\<close> is truthy (present and not
  the empty string). The lookup of the existing record that follows calls
  \<^verbatim>\<open>metadata.tokenAddress.toLowerCase()\<close> without a guard: on a missing address that is
  a TypeError, caught as status 500.
\<close>

definition post_handler :: "timestamp \<Rightarrow> db \<Rightarrow> metadata_body \<Rightarrow> string \<Rightarrow> response \<times> db" where
  "post_handler now d metadata user_address =
     (let userAddress = toLowerCase user_address in
      case (case body_tokenAddress metadata of
              None \<Rightarrow> None
            | Some a \<Rightarrow>
                if a = [] then None
                else
                  (case select_tokens d (toLowerCase a) of
                     [] \<Rightarrow> Some (Error 404 ''Token not found'')
                   | tok # _ \<Rightarrow>
                       if toLowerCase (owner_address tok) \<noteq> userAddress
                       then Some (Error 403 ''Only the token owner can update metadata'')
                       else None)) of
        Some denied \<Rightarrow> (denied, d)
      | None \<Rightarrow>
          (case body_tokenAddress metadata of
             None \<Rightarrow> (Error 500 ''Failed to save token metadata'', d)
           | Some ta \<Rightarrow>
               (case select_token_metadata d (toLowerCase ta) of
                  _ # _ \<Rightarrow>
                    (case update_token_metadata now (toLowerCase ta)
                            (\<lambda>r. (set_descriptive metadata r)
                               \<lparr>logo_url := body_logoUrl metadata,
                                last_updated_by := Some userAddress,
                                update_count := update_count r + 1,
                                updated_at := now\<rparr>) d of
                       None \<Rightarrow> (Error 500 ''Failed to save token metadata'', d)
                     | Some (rows, d') \<Rightarrow> (first_row rows, d'))
                | [] \<Rightarrow>
                    (case insert_token_metadata
                            (new_metadata_row now (toLowerCase ta) metadata (body_logoUrl metadata) userAddress 1) d of
                       None \<Rightarrow> (Error 500 ''Failed to save token metadata'', d)
                     | Some (r, d') \<Rightarrow> (Row r, d')))))"

subsection \<open>\<^verbatim>\<open>PUT /:tokenAddress\<close>\<close>

definition put_handler :: "timestamp \<Rightarrow> db \<Rightarrow> string \<Rightarrow> metadata_body \<Rightarrow> string \<Rightarrow> response \<times> db" where
  "put_handler now d tokenAddress metadata user_address =
     (let userAddress = toLowerCase user_address in
      case select_tokens d (toLowerCase tokenAddress) of
        [] \<Rightarrow> (Error 404 ''Token not found'', d)
      | tok # _ \<Rightarrow>
          if toLowerCase (owner_address tok) \<noteq> userAddress
          then (Error 403 ''Only the token owner can update metadata'', d)
          else
            (case update_token_metadata now (toLowerCase tokenAddress)
                    (\<lambda>r. (set_descriptive metadata r)
                       \<lparr>logo_url := body_logoUrl metadata, updated_at := now\<rparr>) d of
               None \<Rightarrow> (Error 500 ''Failed to update token metadata'', d)
             | Some (rows, d') \<Rightarrow>
                 (case rows of
                    [] \<Rightarrow> (Error 404 ''Token metadata not found'', d')
                  | r # _ \<Rightarrow> (Row r, d'))))"

subsection \<open>\<^verbatim>\<open>POST /upload-logo\<close>\<close>

text \<open>
  \<^verbatim>\<open>req.file\<close> after multer has accepted and stored the upload: its content on disk,
  \<^verbatim>\<open>path.extname(originalname)\<close> and the generated \<^verbatim>\<open>filename\<close>. \<open>base\<close> is
  \<^verbatim>\<open>req.protocol + '://' + req.get('host')\<close>.
\<close>

record uploaded_file =
  file_content :: string
  extname :: string
  filename :: string

definition local_url :: "string \<Rightarrow> uploaded_file \<Rightarrow> string" where
  "local_url base f = base @ ''/uploads/'' @ filename f"

text \<open>
  With a client, the \<^verbatim>\<open>try\<close> block builds the name from \<^verbatim>\<open>tokenAddress.toLowerCase()\<close>;
  a missing address raises there and the \<^verbatim>\<open>catch\<close> falls back to the local URL, as it
  does when the pinning fails.
\<close>

definition upload_url :: "env \<Rightarrow> string option \<Rightarrow> uploaded_file \<Rightarrow> string \<Rightarrow> string" where
  "upload_url e tokenAddress f base =
     (if getWeb3StorageClient e then
        (case tokenAddress of
           None \<Rightarrow> local_url base f
         | Some ta \<Rightarrow>
             (let fileName = ''token-logo-'' @ toLowerCase ta @ extname f in
              case ipfs_put e fileName (file_content f) of
                None \<Rightarrow> local_url base f
              | Some cid \<Rightarrow> ipfs_url cid fileName))
      else local_url base f)"

definition upload_logo_handler ::
  "env \<Rightarrow> timestamp \<Rightarrow> db \<Rightarrow> string option \<Rightarrow> uploaded_file option \<Rightarrow> string \<Rightarrow> string \<Rightarrow> response \<times> db" where
  "upload_logo_handler e now d tokenAddress file user_address base =
     (let userAddress = toLowerCase user_address in
      case file of
        None \<Rightarrow> (Error 400 ''No file uploaded'', d)
      | Some f \<Rightarrow>
     (case (case tokenAddress of
              None \<Rightarrow> None
            | Some a \<Rightarrow>
                if a = [] then None
                else
                  (case select_tokens d (toLowerCase a) of
                     [] \<Rightarrow> Some (Error 404 ''Token not found'')
                   | tok # _ \<Rightarrow>
                       if toLowerCase (owner_address tok) \<noteq> userAddress
                       then Some (Error 403 ''Only the token owner can upload a logo'')
                       else None)) of
        Some denied \<Rightarrow> (denied, d)
      | None \<Rightarrow>
          (let url = upload_url e tokenAddress f base in
           case tokenAddress of
             None \<Rightarrow> (Logo url, d)
           | Some a \<Rightarrow>
               if a = [] then (Logo url, d)
               else
                 (case update_token_metadata now (toLowerCase a)
                         (\<lambda>r. r\<lparr>logo_url := Some url, updated_at := now,
                                last_updated_by := Some userAddress\<rparr>) d of
                    None \<Rightarrow> (Error 500 ''Failed to upload logo'', d)
                  | Some (rows, d') \<Rightarrow> (Logo url, d')))))"

subsection \<open>\<^verbatim>\<open>verifyTokenOwnership\<close>\<close>

text \<open>The on-chain check. No handler of the router calls it.\<close>

definition verifyTokenOwnership :: "env \<Rightarrow> db \<Rightarrow> string \<Rightarrow> string \<Rightarrow> bool" where
  "verifyTokenOwnership e d tokenAddress walletAddress =
     (case select_tokens d (toLowerCase tokenAddress) of
        [] \<Rightarrow> False
      | tok # _ \<Rightarrow>
          (case process_env e (toUpperCase (network_id tok) @ ''_RPC_URL'') of
             None \<Rightarrow> False
           | Some rpcUrl \<Rightarrow>
               if rpcUrl = [] then False
               else
                 (case contract_owner e rpcUrl tokenAddress of
                    None \<Rightarrow> False
                  | Some owner \<Rightarrow> toLowerCase owner = toLowerCase walletAddress)))"

subsection \<open>The owner the handlers compare with\<close>

text \<open>
  Five handlers open with the same block: \<^verbatim>\<open>SELECT owner_address FROM tokens WHERE
  contract_address = $1\<close> on the lowered address, then
  \<^verbatim>\<open>tokenOwner = tokenResult.rows[0].owner_address.toLowerCase()\<close>. \<open>None\<close> is the
  empty result.
\<close>

definition tokenOwner :: "db \<Rightarrow> string \<Rightarrow> string option" where
  "tokenOwner d tokenAddress =
     (case select_tokens d (toLowerCase tokenAddress) of
        [] \<Rightarrow> None
      | tok # _ \<Rightarrow> Some (toLowerCase (owner_address tok)))"

section \<open>Runs of the system\<close>

text \<open>
  Everything that writes to the store: the eight routes, an insert into \<^verbatim>\<open>tokens\<close>
  (with its trigger) and the sweep of expired sessions. Each request carries the time
  at which it is served.
\<close>

datatype request =
    PostTemporary temp_body string
  | PostLink "string option" "string option" string
  | GetHistory string string
  | PostVerify string string
  | GetMetadata string
  | PostMetadata metadata_body string
  | PutMetadata string metadata_body string
  | PostUploadLogo "string option" "uploaded_file option" string string
  | InsertToken token
  | CleanupExpired

fun step :: "env \<Rightarrow> timestamp \<times> request \<Rightarrow> db \<Rightarrow> db" where
  "step e (now, PostTemporary body u) d = snd (temporary_handler now d body u)"
| "step e (now, PostLink a sid u) d = snd (link_handler e now d a sid u)"
| "step e (now, GetHistory a u) d = d"
| "step e (now, PostVerify a u) d = snd (verify_handler e now d a u)"
| "step e (now, GetMetadata a) d = d"
| "step e (now, PostMetadata body u) d = snd (post_handler now d body u)"
| "step e (now, PutMetadata a body u) d = snd (put_handler now d a body u)"
| "step e (now, PostUploadLogo a file u base) d = snd (upload_logo_handler e now d a file u base)"
| "step e (now, InsertToken t) d = (case insert_token now t d of None \<Rightarrow> d | Some d' \<Rightarrow> d')"
| "step e (now, CleanupExpired) d = cleanup_expired_metadata now d"

definition run :: "env \<Rightarrow> (timestamp \<times> request) list \<Rightarrow> db \<Rightarrow> db" where
  "run e reqs d = fold (step e) reqs d"

definition empty_db :: db where
  "empty_db = \<lparr>tokens = [], token_metadata = [], temporary_metadata = [],
               token_metadata_history = []\<rparr>"

subsection \<open>What a request does to the metadata tables\<close>

text \<open>
  Two predicates for the proofs about runs. \<open>metadata_effect\<close> lists the three ways in
  which one request changes \<^verbatim>\<open>token_metadata\<close> and \<^verbatim>\<open>token_metadata_history\<close>: not at
  all, by one INSERT of a row with a new key and \<^verbatim>\<open>update_count\<close> 1, or by one UPDATE
  statement that keeps the keys. \<open>history_invariant\<close> is what every store reached from
  the empty one satisfies.
\<close>

definition metadata_effect :: "timestamp \<Rightarrow> db \<Rightarrow> db \<Rightarrow> bool" where
  "metadata_effect now d d' \<longleftrightarrow>
     (token_metadata d' = token_metadata d \<and>
      token_metadata_history d' = token_metadata_history d)
   \<or> (\<exists>r. token_address r \<notin> set (map token_address (token_metadata d)) \<and>
          update_count r = 1 \<and>
          token_metadata d' = token_metadata d @ [r] \<and>
          token_metadata_history d' = token_metadata_history d)
   \<or> (\<exists>k f rows d''. (\<forall>r. token_address (f r) = token_address r) \<and>
          update_token_metadata now k f d = Some (rows, d'') \<and>
          token_metadata d' = token_metadata d'' \<and>
          token_metadata_history d' = token_metadata_history d'')"

definition history_invariant :: "db \<Rightarrow> bool" where
  "history_invariant d \<longleftrightarrow>
     distinct (map token_address (token_metadata d))
   \<and> (\<forall>r \<in> set (token_metadata d).
         int (length (select_history d (token_address r))) = update_count r - 1)
   \<and> (\<forall>h \<in> set (token_metadata_history d).
         history_token_address h \<in> set (map token_address (token_metadata d)))"

section \<open>Example data\<close>

text \<open>
  A token whose row in \<^verbatim>\<open>tokens\<close> names \<open>0xBBB\<close> as owner while the contract on
  chain answers \<open>0xCCC\<close>; its metadata record, last written by \<open>0xaaa\<close>; a session of
  \<open>0xbbb\<close> created at time 0, hence expired from 86400 on.
\<close>

definition example_fields :: descriptive where
  "example_fields =
     \<lparr>name = Some ''Foo'', symbol = Some ''FOO'', description = None,
      website_url = None, twitter_url = None, telegram_url = None, discord_url = None,
      whitepaper_url = None, github_url = None, tags = None\<rparr>"

definition example_env :: env where
  "example_env =
     \<lparr>process_env =
        (\<lambda>k. if k = ''SEPOLIA_RPC_URL'' then Some ''https://rpc.example''
             else if k = ''ADMIN_ADDRESSES'' then Some ''0xAdmin,0xEEE''
             else None),
      ipfs_put = (\<lambda>fileName content. None),
      contract_owner = (\<lambda>rpcUrl a. Some ''0xCCC'')\<rparr>"

definition example_token :: token where
  "example_token =
     \<lparr>contract_address = ''0xtoken1'', owner_address = ''0xBBB'', network_id = ''sepolia''\<rparr>"

definition example_record :: metadata_row where
  "example_record = new_metadata_row 10 ''0xtoken1'' example_fields None ''0xaaa'' 1"

definition example_session :: temp_row where
  "example_session =
     \<lparr>name = Some ''Bar'', symbol = Some ''BAR'', description = Some ''draft'',
      website_url = None, twitter_url = None, telegram_url = None, discord_url = None,
      whitepaper_url = None, github_url = None, tags = None,
      session_id = ''s1'', creator_address = ''0xbbb'', logo_data = None,
      temp_created_at = 0, expires_at = 86400\<rparr>"

definition example_db :: db where
  "example_db =
     \<lparr>tokens = [example_token], token_metadata = [example_record],
      temporary_metadata = [example_session], token_metadata_history = []\<rparr>"

definition example_body :: metadata_body where
  "example_body =
     \<lparr>name = Some ''Foo'', symbol = Some ''FOO'', description = Some ''edited'',
      website_url = None, twitter_url = None, telegram_url = None, discord_url = None,
      whitepaper_url = None, github_url = None, tags = None,
      body_tokenAddress = Some ''0xToken1'', body_logoUrl = None\<rparr>"

definition example_file :: uploaded_file where
  "example_file = \<lparr>file_content = ''png'', extname = ''.png'', filename = ''logo-1.png''\<rparr>"

definition example_updated :: metadata_row where
  "example_updated =
     example_record\<lparr>description := Some ''edited'', update_count := 2, updated_at := 20\<rparr>"

definition example_db_updated :: db where
  "example_db_updated =
     example_db\<lparr>token_metadata := [example_updated],
                token_metadata_history :=
                  [\<lparr>history_token_address = ''0xtoken1'', updated_by = ''0xaaa'',
                    update_timestamp = 20, previous_data = example_record\<rparr>]\<rparr>"

definition example_db_no_record :: db where
  "example_db_no_record = example_db\<lparr>token_metadata := []\<rparr>"







text \<open>The example record after a Verify by the admin \<open>0xEEE\<close>, and after an upload by the owner.\<close>

definition example_verified :: metadata_row where
  "example_verified = example_record\<lparr>verified := True, update_count := 2, updated_at := 20\<rparr>"

definition example_db_verified :: db where
  "example_db_verified =
     example_db\<lparr>token_metadata := [example_verified],
                token_metadata_history :=
                  [\<lparr>history_token_address = ''0xtoken1'', updated_by = ''0xaaa'',
                    update_timestamp = 20, previous_data = example_record\<rparr>]\<rparr>"

definition example_uploaded :: metadata_row where
  "example_uploaded =
     example_record\<lparr>logo_url := Some ''http://host/uploads/logo-1.png'',
                     last_updated_by := Some ''0xbbb'', update_count := 2, updated_at := 20\<rparr>"

definition example_db_uploaded :: db where
  "example_db_uploaded =
     example_db\<lparr>token_metadata := [example_uploaded],
                token_metadata_history :=
                  [\<lparr>history_token_address = ''0xtoken1'', updated_by = ''0xbbb'',
                    update_timestamp = 20, previous_data = example_record\<rparr>]\<rparr>"

text \<open>A run on the example store, and a run that starts from the empty store.\<close>

definition example_requests :: "(timestamp \<times> request) list" where
  "example_requests =
     [(20, PutMetadata ''0xToken1'' example_body ''0xBBB''),
      (30, PostVerify ''0xToken1'' ''0xEEE''),
      (40, GetMetadata ''0xToken1''),
      (50, PostUploadLogo (Some ''0xToken1'') (Some example_file) ''0xBBB'' ''http://host''),
      (60, CleanupExpired)]"

definition example_history :: "(timestamp \<times> request) list" where
  "example_history =
     [(5, InsertToken example_token),
      (10, PostMetadata example_body ''0xBBB''),
      (20, PutMetadata ''0xToken1'' example_body ''0xBBB'')]"

definition example_created :: metadata_row where
  "example_created =
     (new_metadata_row 10 ''0xtoken1'' example_body None ''0xbbb'' 1)
       \<lparr>update_count := 2, updated_at := 20\<rparr>"

text \<open>
  A token with well-formed addresses: the row in \<^verbatim>\<open>tokens\<close> still names \<open>0xbbbb...\<close>
  as owner, the contract's \<^verbatim>\<open>owner()\<close> at the configured endpoint answers
  \<open>0xCcCC...\<close> (the checksummed form of \<open>0xcccc...\<close>); its record, and a session of
  \<open>0xbbbb...\<close>.
\<close>

definition chain_env :: env where
  "chain_env =
     \<lparr>process_env = (\<lambda>k. if k = ''SEPOLIA_RPC_URL'' then Some ''https://rpc.example'' else None),
      ipfs_put = (\<lambda>fileName content. None),
      contract_owner =
        (\<lambda>rpcUrl a.
           if rpcUrl = ''https://rpc.example'' \<and> a = ''0x1111111111111111111111111111111111111111''
           then Some ''0xCcCCccccCCCCcCCCCCCcCcCccCcCCCcCcccccccC'' else None)\<rparr>"

definition chain_token :: token where
  "chain_token =
     \<lparr>contract_address = ''0x1111111111111111111111111111111111111111'',
      owner_address = ''0xbbbbbbbbbbbbbbbbbbbbbbbbbbbbbbbbbbbbbbbb'',
      network_id = ''sepolia''\<rparr>"

definition chain_record :: metadata_row where
  "chain_record =
     new_metadata_row 10 ''0x1111111111111111111111111111111111111111'' example_fields None
       ''0xbbbbbbbbbbbbbbbbbbbbbbbbbbbbbbbbbbbbbbbb'' 1"

definition chain_session :: temp_row where
  "chain_session =
     example_session\<lparr>creator_address := ''0xbbbbbbbbbbbbbbbbbbbbbbbbbbbbbbbbbbbbbbbb''\<rparr>"

definition chain_db :: db where
  "chain_db =
     \<lparr>tokens = [chain_token], token_metadata = [chain_record],
      temporary_metadata = [chain_session], token_metadata_history = []\<rparr>"

definition chain_body :: metadata_body where
  "chain_body =
     example_body\<lparr>body_tokenAddress := Some ''0x1111111111111111111111111111111111111111''\<rparr>"

text \<open>The example record with the largest \<^verbatim>\<open>update_count\<close> an \<^verbatim>\<open>INTEGER\<close> holds.\<close>

definition example_record_full :: metadata_row where
  "example_record_full = example_record\<lparr>update_count := 2147483647\<rparr>"

definition example_db_full :: db where
  "example_db_full = example_db\<lparr>token_metadata := [example_record_full]\<rparr>"


section \<open>Properties\<close>

lemma lower_char_idem: "lower_char (lower_char c) = lower_char c"
proof (cases "65 \<le> (of_char c :: nat) \<and> (of_char c :: nat) \<le> 90")
  case True
  then have "(of_char (char_of ((of_char c :: nat) + 32)) :: nat) = of_char c + 32"
    by simp
  with True show ?thesis
    by (simp add: lower_char_def)
next
  case False
  then have "lower_char c = c"
    by (auto simp: lower_char_def)
  then show ?thesis
    by simp
qed

lemma toLowerCase_idem: "toLowerCase (toLowerCase s) = toLowerCase s"
  by (simp add: toLowerCase_def lower_char_idem)

subsection \<open>The UPDATE statement and its triggers\<close>

lemma filter_key_distinct:
  "distinct (map key rs) \<Longrightarrow> filter (\<lambda>r. key r = k) rs = [] \<or> (\<exists>r. filter (\<lambda>r. key r = k) rs = [r])"
proof (induction rs)
  case Nil
  then show ?case by simp
next
  case (Cons x rs)
  show ?case
  proof (cases "key x = k")
    case True
    with Cons.prems have "k \<notin> key ` set rs"
      by simp
    then have "\<forall>r \<in> set rs. key r \<noteq> k"
      by blast
    then have "filter (\<lambda>r. key r = k) rs = []"
      by (simp add: filter_empty_conv)
    with True show ?thesis by simp
  next
    case False
    with Cons show ?thesis by simp
  qed
qed

lemma before_update_Some:
  "before_update now toks old new = Some (h, r') \<Longrightarrow>
     (\<exists>who. last_updated_by new = Some who \<and>
        h = \<lparr>history_token_address = token_address old, updated_by = who,
              update_timestamp = now, previous_data = old\<rparr>) \<and>
     r' = new\<lparr>update_count := update_count old + 1, updated_at := now\<rparr>"
  by (auto simp: before_update_def track_metadata_updates_def update_modified_column_def
           split: option.splits if_splits)

lemma update_rows_Some:
  "update_rows now toks k f rs = Some (tbl, ret, hs) \<Longrightarrow>
     tbl = map (\<lambda>r. if token_address r = k
                     then (f r)\<lparr>update_count := update_count r + 1, updated_at := now\<rparr> else r) rs \<and>
     ret = map (\<lambda>r. (f r)\<lparr>update_count := update_count r + 1, updated_at := now\<rparr>)
             (filter (\<lambda>r. token_address r = k) rs) \<and>
     map previous_data hs = filter (\<lambda>r. token_address r = k) rs \<and>
     map (\<lambda>h. Some (updated_by h)) hs =
       map (\<lambda>r. last_updated_by (f r)) (filter (\<lambda>r. token_address r = k) rs) \<and>
     (\<forall>h \<in> set hs. history_token_address h = k \<and> update_timestamp h = now)"
proof (induction rs arbitrary: tbl ret hs)
  case Nil
  then show ?case by simp
next
  case (Cons r rs)
  show ?case
  proof (cases "token_address r = k")
    case True
    with Cons.prems obtain h r' tbl' ret' hs' where
      b: "before_update now toks r (f r) = Some (h, r')" and
      u: "update_rows now toks k f rs = Some (tbl', ret', hs')" and
      e: "tbl = r' # tbl'" "ret = r' # ret'" "hs = h # hs'"
      by (auto split: option.splits)
    from before_update_Some [OF b] True Cons.IH [OF u] e show ?thesis
      by auto
  next
    case False
    with Cons.prems obtain tbl' where
      u: "update_rows now toks k f rs = Some (tbl', ret, hs)" and e: "tbl = r # tbl'"
      by (auto split: option.splits)
    from False Cons.IH [OF u] e show ?thesis
      by auto
  qed
qed

lemma update_rows_none_matching:
  "filter (\<lambda>r. token_address r = k) rs = [] \<Longrightarrow> update_rows now toks k f rs = Some (rs, [], [])"
  by (induction rs) (auto split: if_splits)

lemma update_token_metadata_Some:
  assumes "update_token_metadata now k f d = Some (rows, d')"
  shows "tokens d' = tokens d"
    and "temporary_metadata d' = temporary_metadata d"
    and "token_metadata d' =
           map (\<lambda>r. if token_address r = k
                     then (f r)\<lparr>update_count := update_count r + 1, updated_at := now\<rparr> else r)
             (token_metadata d)"
    and "rows = map (\<lambda>r. (f r)\<lparr>update_count := update_count r + 1, updated_at := now\<rparr>)
                  (select_token_metadata d k)"
    and "\<exists>hs. token_metadata_history d' = token_metadata_history d @ hs \<and>
           map previous_data hs = select_token_metadata d k \<and>
           map (\<lambda>h. Some (updated_by h)) hs =
             map (\<lambda>r. last_updated_by (f r)) (select_token_metadata d k) \<and>
           (\<forall>h \<in> set hs. history_token_address h = k \<and> update_timestamp h = now)"
proof -
  from assms obtain tbl hs where
    u: "update_rows now (tokens d) k f (token_metadata d) = Some (tbl, rows, hs)" and
    d': "d' = d\<lparr>token_metadata := tbl, token_metadata_history := token_metadata_history d @ hs\<rparr>"
    by (auto simp: update_token_metadata_def split: option.splits)
  note s = update_rows_Some [OF u]
  from d' show "tokens d' = tokens d" "temporary_metadata d' = temporary_metadata d"
    by simp_all
  from d' s show "token_metadata d' =
           map (\<lambda>r. if token_address r = k
                     then (f r)\<lparr>update_count := update_count r + 1, updated_at := now\<rparr> else r)
             (token_metadata d)"
    by simp
  from s show "rows = map (\<lambda>r. (f r)\<lparr>update_count := update_count r + 1, updated_at := now\<rparr>)
                  (select_token_metadata d k)"
    by (simp add: select_token_metadata_def)
  from d' s show "\<exists>hs. token_metadata_history d' = token_metadata_history d @ hs \<and>
           map previous_data hs = select_token_metadata d k \<and>
           map (\<lambda>h. Some (updated_by h)) hs =
             map (\<lambda>r. last_updated_by (f r)) (select_token_metadata d k) \<and>
           (\<forall>h \<in> set hs. history_token_address h = k \<and> update_timestamp h = now)"
    by (auto simp: select_token_metadata_def)
qed

lemma update_token_metadata_one:
  assumes "update_token_metadata now k f d = Some (rows, d')"
      and "select_token_metadata d k = [r]"
  shows "rows = [(f r)\<lparr>update_count := update_count r + 1, updated_at := now\<rparr>]"
    and "\<exists>who. last_updated_by (f r) = Some who \<and>
           token_metadata_history d' = token_metadata_history d @
             [\<lparr>history_token_address = k, updated_by = who,
               update_timestamp = now, previous_data = r\<rparr>]"
proof -
  from update_token_metadata_Some(4) [OF assms(1)] assms(2)
  show "rows = [(f r)\<lparr>update_count := update_count r + 1, updated_at := now\<rparr>]"
    by simp
  from update_token_metadata_Some(5) [OF assms(1)] assms(2) obtain hs where
    h: "token_metadata_history d' = token_metadata_history d @ hs"
       "map previous_data hs = [r]"
       "map (\<lambda>h. Some (updated_by h)) hs = [last_updated_by (f r)]"
       "\<forall>h \<in> set hs. history_token_address h = k \<and> update_timestamp h = now"
    by auto
  from h(2) obtain x where x: "hs = [x]" "previous_data x = r"
    by auto
  with h(3,4) have "last_updated_by (f r) = Some (updated_by x)"
    "x = \<lparr>history_token_address = k, updated_by = updated_by x,
          update_timestamp = now, previous_data = r\<rparr>"
    by auto
  with h(1) x(1) show "\<exists>who. last_updated_by (f r) = Some who \<and>
           token_metadata_history d' = token_metadata_history d @
             [\<lparr>history_token_address = k, updated_by = who,
               update_timestamp = now, previous_data = r\<rparr>]"
    by auto
qed

lemma select_after_update:
  assumes "update_token_metadata now k f d = Some (rows, d')"
      and "\<And>r. token_address (f r) = token_address r"
  shows "select_token_metadata d' a =
           map (\<lambda>r. if token_address r = k
                     then (f r)\<lparr>update_count := update_count r + 1, updated_at := now\<rparr> else r)
             (select_token_metadata d a)"
  unfolding select_token_metadata_def update_token_metadata_Some(3) [OF assms(1)] filter_map
  by (rule arg_cong [where f = "map _"], rule filter_cong) (auto simp: assms(2))

lemma set_descriptive_token_address: "token_address (set_descriptive s r) = token_address r"
  by (simp add: set_descriptive_def)

subsection \<open>C1: the ownership gate\<close>

lemma post_handler_gate:
  assumes "a \<noteq> []"
  shows "(fst (post_handler now d (m\<lparr>body_tokenAddress := Some a\<rparr>) u) = Error 404 ''Token not found'')
           = (tokenOwner d a = None)"
    and "(fst (post_handler now d (m\<lparr>body_tokenAddress := Some a\<rparr>) u)
            = Error 403 ''Only the token owner can update metadata'')
           = (\<exists>owner. tokenOwner d a = Some owner \<and> owner \<noteq> toLowerCase u)"
  using assms
  by (auto simp: post_handler_def tokenOwner_def truthy_def first_row_def Let_def
           split: list.splits option.splits)

lemma put_handler_gate:
  shows "(fst (put_handler now d a m u) = Error 404 ''Token not found'') = (tokenOwner d a = None)"
    and "(fst (put_handler now d a m u) = Error 403 ''Only the token owner can update metadata'')
           = (\<exists>owner. tokenOwner d a = Some owner \<and> owner \<noteq> toLowerCase u)"
  by (auto simp: put_handler_def tokenOwner_def Let_def split: list.splits option.splits)

lemma link_handler_gate:
  assumes "a \<noteq> []" and "sid \<noteq> []"
  shows "(fst (link_handler e now d (Some a) (Some sid) u) = Error 404 ''Token not found'')
           = (tokenOwner d a = None)"
    and "(fst (link_handler e now d (Some a) (Some sid) u)
            = Error 403 ''Only the token owner can link metadata'')
           = (\<exists>owner. tokenOwner d a = Some owner \<and> owner \<noteq> toLowerCase u)"
  using assms
  by (auto simp: link_handler_def tokenOwner_def first_row_def Let_def
           split: list.splits option.splits)

lemma upload_logo_handler_gate:
  assumes "a \<noteq> []"
  shows "(fst (upload_logo_handler e now d (Some a) (Some f) u base) = Error 404 ''Token not found'')
           = (tokenOwner d a = None)"
    and "(fst (upload_logo_handler e now d (Some a) (Some f) u base)
            = Error 403 ''Only the token owner can upload a logo'')
           = (\<exists>owner. tokenOwner d a = Some owner \<and> owner \<noteq> toLowerCase u)"
  using assms
  by (auto simp: upload_logo_handler_def tokenOwner_def truthy_def Let_def
           split: list.splits option.splits)

lemma history_handler_gate:
  shows "(history_handler d a u = Error 404 ''Token not found'') = (tokenOwner d a = None)"
    and "(history_handler d a u = Error 403 ''Only the token owner can view metadata history'')
           = (\<exists>owner. tokenOwner d a = Some owner \<and> owner \<noteq> toLowerCase u)"
  by (auto simp: history_handler_def tokenOwner_def Let_def split: list.splits option.splits)

text \<open>
  What the gate of the five operations computes, for every store and caller: 404
  "Token not found" exactly when \<^verbatim>\<open>tokens\<close> has no row for the lowered address, 403
  exactly when the lowered \<^verbatim>\<open>owner_address\<close> of that row differs from the lowered
  caller. Neither the environment nor the chain enters the verdict.
\<close>

lemma ownership_gate_verdict:
  assumes "a \<noteq> []" and "sid \<noteq> []"
  shows "((fst (post_handler now d (m\<lparr>body_tokenAddress := Some a\<rparr>) u) = Error 404 ''Token not found'')
            = (tokenOwner d a = None))
       \<and> ((fst (post_handler now d (m\<lparr>body_tokenAddress := Some a\<rparr>) u)
             = Error 403 ''Only the token owner can update metadata'')
            = (\<exists>owner. tokenOwner d a = Some owner \<and> owner \<noteq> toLowerCase u))
       \<and> ((fst (put_handler now d a m u) = Error 404 ''Token not found'') = (tokenOwner d a = None))
       \<and> ((fst (put_handler now d a m u) = Error 403 ''Only the token owner can update metadata'')
            = (\<exists>owner. tokenOwner d a = Some owner \<and> owner \<noteq> toLowerCase u))
       \<and> ((fst (link_handler e now d (Some a) (Some sid) u) = Error 404 ''Token not found'')
            = (tokenOwner d a = None))
       \<and> ((fst (link_handler e now d (Some a) (Some sid) u)
             = Error 403 ''Only the token owner can link metadata'')
            = (\<exists>owner. tokenOwner d a = Some owner \<and> owner \<noteq> toLowerCase u))
       \<and> ((fst (upload_logo_handler e now d (Some a) (Some f) u base) = Error 404 ''Token not found'')
            = (tokenOwner d a = None))
       \<and> ((fst (upload_logo_handler e now d (Some a) (Some f) u base)
             = Error 403 ''Only the token owner can upload a logo'')
            = (\<exists>owner. tokenOwner d a = Some owner \<and> owner \<noteq> toLowerCase u))
       \<and> ((history_handler d a u = Error 404 ''Token not found'') = (tokenOwner d a = None))
       \<and> ((history_handler d a u = Error 403 ''Only the token owner can view metadata history'')
            = (\<exists>owner. tokenOwner d a = Some owner \<and> owner \<noteq> toLowerCase u))"
  by (simp only: post_handler_gate [OF assms(1)] put_handler_gate link_handler_gate [OF assms]
        upload_logo_handler_gate [OF assms(1)] history_handler_gate simp_thms)

text \<open>
  C1. The ownership check of Create, Update, LinkSession, UploadLogo and GetHistory is
  to resolve the owner on chain, through the contract's \<^verbatim>\<open>owner()\<close> at the endpoint of
  the token's network. \<^verbatim>\<open>verifyTokenOwnership\<close> does that and is never called; the
  handlers compare with the stored \<^verbatim>\<open>owner_address\<close>. Here the contract answers
  \<open>0xCcCC...\<close> while the row names \<open>0xbbbb...\<close>: the on-chain check accepts
  \<open>0xcccc...\<close> and rejects \<open>0xbbbb...\<close>, yet all five operations serve \<open>0xbbbb...\<close>
  and answer \<open>0xcccc...\<close> with 403.
\<close>

theorem ownership_gate_serves_stored_owner:
  "tokenOwner chain_db ''0x1111111111111111111111111111111111111111''
     = Some ''0xbbbbbbbbbbbbbbbbbbbbbbbbbbbbbbbbbbbbbbbb''
 \<and> contract_owner chain_env ''https://rpc.example'' ''0x1111111111111111111111111111111111111111''
     = Some ''0xCcCCccccCCCCcCCCCCCcCcCccCcCCCcCcccccccC''
 \<and> verifyTokenOwnership chain_env chain_db ''0x1111111111111111111111111111111111111111''
       ''0xcccccccccccccccccccccccccccccccccccccccc''
 \<and> \<not> verifyTokenOwnership chain_env chain_db ''0x1111111111111111111111111111111111111111''
       ''0xbbbbbbbbbbbbbbbbbbbbbbbbbbbbbbbbbbbbbbbb''
 \<and> fst (post_handler 20 chain_db chain_body ''0xbbbbbbbbbbbbbbbbbbbbbbbbbbbbbbbbbbbbbbbb'')
     = Row (chain_record\<lparr>description := Some ''edited'', update_count := 2, updated_at := 20\<rparr>)
 \<and> fst (put_handler 20 chain_db ''0x1111111111111111111111111111111111111111'' chain_body
          ''0xbbbbbbbbbbbbbbbbbbbbbbbbbbbbbbbbbbbbbbbb'')
     = Row (chain_record\<lparr>description := Some ''edited'', update_count := 2, updated_at := 20\<rparr>)
 \<and> fst (link_handler chain_env 20 chain_db (Some ''0x1111111111111111111111111111111111111111'')
          (Some ''s1'') ''0xbbbbbbbbbbbbbbbbbbbbbbbbbbbbbbbbbbbbbbbb'')
     = Row (chain_record\<lparr>name := Some ''Bar'', symbol := Some ''BAR'',
              description := Some ''draft'', update_count := 2, updated_at := 20\<rparr>)
 \<and> fst (upload_logo_handler chain_env 20 chain_db
          (Some ''0x1111111111111111111111111111111111111111'') (Some example_file)
          ''0xbbbbbbbbbbbbbbbbbbbbbbbbbbbbbbbbbbbbbbbb'' ''http://host'')
     = Logo ''http://host/uploads/logo-1.png''
 \<and> history_handler chain_db ''0x1111111111111111111111111111111111111111''
       ''0xbbbbbbbbbbbbbbbbbbbbbbbbbbbbbbbbbbbbbbbb'' = History []
 \<and> fst (post_handler 20 chain_db chain_body ''0xcccccccccccccccccccccccccccccccccccccccc'')
     = Error 403 ''Only the token owner can update metadata''
 \<and> fst (put_handler 20 chain_db ''0x1111111111111111111111111111111111111111'' chain_body
          ''0xcccccccccccccccccccccccccccccccccccccccc'')
     = Error 403 ''Only the token owner can update metadata''
 \<and> fst (link_handler chain_env 20 chain_db (Some ''0x1111111111111111111111111111111111111111'')
          (Some ''s1'') ''0xcccccccccccccccccccccccccccccccccccccccc'')
     = Error 403 ''Only the token owner can link metadata''
 \<and> fst (upload_logo_handler chain_env 20 chain_db
          (Some ''0x1111111111111111111111111111111111111111'') (Some example_file)
          ''0xcccccccccccccccccccccccccccccccccccccccc'' ''http://host'')
     = Error 403 ''Only the token owner can upload a logo''
 \<and> history_handler chain_db ''0x1111111111111111111111111111111111111111''
       ''0xcccccccccccccccccccccccccccccccccccccccc''
     = Error 403 ''Only the token owner can view metadata history''"
  by code_simp

subsection \<open>C2 and C4: Update\<close>

lemma put_handler_Row:
  assumes "put_handler now d tokenAddress metadata user_address = (Row r', d')"
  shows "\<exists>rows. update_token_metadata now (toLowerCase tokenAddress)
                  (\<lambda>r. (set_descriptive metadata r)
                     \<lparr>logo_url := body_logoUrl metadata, updated_at := now\<rparr>) d
                = Some (r' # rows, d')"
  using assms
  by (auto simp: put_handler_def Let_def split: list.splits if_splits option.splits)

text \<open>
  C2. A successful Update (\<^verbatim>\<open>PUT /:tokenAddress\<close> answering with the row) of an
  existing record raises \<^verbatim>\<open>update_count\<close> by exactly 1 and appends exactly one history
  row, whose \<^verbatim>\<open>previous_data\<close> is the record as it stood in the table when the
  statement ran. The key column is unique, as the schema declares it.
\<close>

theorem put_handler_increments_and_snapshots:
  assumes "distinct (map token_address (token_metadata d))"
      and "put_handler now d tokenAddress metadata user_address = (Row r', d')"
  shows "\<exists>r who. select_token_metadata d (toLowerCase tokenAddress) = [r]
           \<and> select_token_metadata d' (toLowerCase tokenAddress) = [r']
           \<and> update_count r' = update_count r + 1
           \<and> token_metadata_history d' = token_metadata_history d @
                 [\<lparr>history_token_address = toLowerCase tokenAddress, updated_by = who,
                   update_timestamp = now, previous_data = r\<rparr>]"
proof -
  let ?k = "toLowerCase tokenAddress"
  let ?f = "\<lambda>r. (set_descriptive metadata r)\<lparr>logo_url := body_logoUrl metadata, updated_at := now\<rparr>"
  from put_handler_Row [OF assms(2)] obtain rows where
    u: "update_token_metadata now ?k ?f d = Some (r' # rows, d')"
    by blast
  from update_token_metadata_Some(4) [OF u] have "select_token_metadata d ?k \<noteq> []"
    by auto
  with filter_key_distinct [OF assms(1), of ?k] obtain r where
    r: "select_token_metadata d ?k = [r]"
    by (auto simp: select_token_metadata_def)
  from update_token_metadata_one [OF u r] obtain who where
    rows: "r' = (?f r)\<lparr>update_count := update_count r + 1, updated_at := now\<rparr>" and
    h: "token_metadata_history d' = token_metadata_history d @
          [\<lparr>history_token_address = ?k, updated_by = who,
            update_timestamp = now, previous_data = r\<rparr>]"
    by auto
  from r have k: "token_address r = ?k"
    by (auto simp: select_token_metadata_def filter_eq_Cons_iff)
  have "select_token_metadata d' ?k = [r']"
    using select_after_update [OF u, of ?k] r rows k
    by (simp add: set_descriptive_token_address)
  with r rows h show ?thesis
    by simp
qed

text \<open>The Update of the example record by the owner the \<^verbatim>\<open>tokens\<close> row names.\<close>

theorem put_handler_increments_and_snapshots_witness:
  "distinct (map token_address (token_metadata example_db)) \<and>
   put_handler 20 example_db ''0xToken1'' example_body ''0xBBB''
     = (Row example_updated, example_db_updated) \<and>
   (\<exists>r who. select_token_metadata example_db (toLowerCase ''0xToken1'') = [r]
      \<and> select_token_metadata example_db_updated (toLowerCase ''0xToken1'') = [example_updated]
      \<and> update_count example_updated = update_count r + 1
      \<and> token_metadata_history example_db_updated = token_metadata_history example_db @
            [\<lparr>history_token_address = toLowerCase ''0xToken1'', updated_by = who,
              update_timestamp = 20, previous_data = r\<rparr>])"
proof -
  have h1: "distinct (map token_address (token_metadata example_db))"
    by code_simp
  have h2: "put_handler 20 example_db ''0xToken1'' example_body ''0xBBB''
              = (Row example_updated, example_db_updated)"
    by code_simp
  from h1 h2 put_handler_increments_and_snapshots [OF h1 h2] show ?thesis
    by blast
qed

text \<open>
  C4. Update is to set \<^verbatim>\<open>last_updated_by\<close> to the caller. The UPDATE statement of
  \<^verbatim>\<open>PUT /:tokenAddress\<close> has no such assignment (those of \<^verbatim>\<open>POST /\<close>, \<^verbatim>\<open>POST /link\<close>
  and \<^verbatim>\<open>POST /upload-logo\<close> have it): the owner \<open>0xBBB\<close> updates the example record
  and the record still names \<open>0xaaa\<close>, as does the history row written for the update.
\<close>

theorem put_handler_keeps_last_updated_by:
  "tokenOwner example_db ''0xToken1'' = Some (toLowerCase ''0xBBB'') \<and>
   last_updated_by example_record = Some ''0xaaa'' \<and>
   put_handler 20 example_db ''0xToken1'' example_body ''0xBBB''
     = (Row example_updated, example_db_updated) \<and>
   last_updated_by example_updated = Some ''0xaaa'' \<and>
   map updated_by (token_metadata_history example_db_updated) = [''0xaaa'']"
  by code_simp

subsection \<open>C3 and C6: LinkSession\<close>

text \<open>
  C3. A session whose \<^verbatim>\<open>expires_at\<close> is past is to be treated as absent. The lookup
  of \<^verbatim>\<open>POST /link\<close> does not compare \<^verbatim>\<open>expires_at\<close> (the trigger on \<^verbatim>\<open>tokens\<close>
  does): at time 90000 the session that expired at 86400 is found, linked onto a new
  record and deleted.
\<close>

theorem link_handler_accepts_expired_session:
  "expires_at example_session < 90000 \<and>
   select_session_of example_db_no_record ''s1'' ''0xbbb'' = [example_session] \<and>
   link_handler example_env 90000 example_db_no_record (Some ''0xToken1'') (Some ''s1'') ''0xBBB''
     = (Row (new_metadata_row 90000 ''0xtoken1'' example_session None ''0xbbb'' 1),
        example_db\<lparr>token_metadata := [new_metadata_row 90000 ''0xtoken1'' example_session None ''0xbbb'' 1],
                   temporary_metadata := []\<rparr>)"
  by code_simp

text \<open>
  C6. When the ownership check fails (no row in \<^verbatim>\<open>tokens\<close>, or another owner) or no
  session has the given id and the caller as creator, LinkSession answers with an
  error and leaves the whole store as it was: no record is written and no session is
  deleted.
\<close>

theorem link_handler_failure_leaves_store:
  assumes "tokenOwner d a \<noteq> Some (toLowerCase u) \<or> select_session_of d sid (toLowerCase u) = []"
  shows "snd (link_handler e now d (Some a) (Some sid) u) = d \<and>
         fst (link_handler e now d (Some a) (Some sid) u) \<in>
           {Error 400 ''Token address and session ID are required'',
            Error 404 ''Token not found'',
            Error 403 ''Only the token owner can link metadata'',
            Error 404 ''Temporary metadata not found''}"
  using assms
  by (auto simp: link_handler_def tokenOwner_def Let_def split: list.splits option.splits)

text \<open>
  At the example store: \<open>0xAAA\<close> is not the owner (403), and the owner has no session
  \<open>s2\<close> (404); the store is returned unchanged both times.
\<close>

theorem link_handler_failure_leaves_store_witness:
  "tokenOwner example_db ''0xToken1'' = Some ''0xbbb''
 \<and> toLowerCase ''0xAAA'' = ''0xaaa''
 \<and> link_handler example_env 20 example_db (Some ''0xToken1'') (Some ''s1'') ''0xAAA''
     = (Error 403 ''Only the token owner can link metadata'', example_db)
 \<and> select_session_of example_db ''s2'' (toLowerCase ''0xBBB'') = []
 \<and> link_handler example_env 20 example_db (Some ''0xToken1'') (Some ''s2'') ''0xBBB''
     = (Error 404 ''Temporary metadata not found'', example_db)"
proof -
  have o: "tokenOwner example_db ''0xToken1'' = Some ''0xbbb''"
    and c: "toLowerCase ''0xAAA'' = ''0xaaa''"
    and s: "select_session_of example_db ''s2'' (toLowerCase ''0xBBB'') = []"
    by code_simp+
  from o c have h1: "tokenOwner example_db ''0xToken1'' \<noteq> Some (toLowerCase ''0xAAA'')
      \<or> select_session_of example_db ''s1'' (toLowerCase ''0xAAA'') = []"
    by simp
  from s have h2: "tokenOwner example_db ''0xToken1'' \<noteq> Some (toLowerCase ''0xBBB'')
      \<or> select_session_of example_db ''s2'' (toLowerCase ''0xBBB'') = []"
    by simp
  have f1: "fst (link_handler example_env 20 example_db (Some ''0xToken1'') (Some ''s1'') ''0xAAA'')
     = Error 403 ''Only the token owner can link metadata''"
    by code_simp
  have f2: "fst (link_handler example_env 20 example_db (Some ''0xToken1'') (Some ''s2'') ''0xBBB'')
     = Error 404 ''Temporary metadata not found''"
    by code_simp
  from link_handler_failure_leaves_store [OF h1, of example_env 20]
       link_handler_failure_leaves_store [OF h2, of example_env 20]
       o c s f1 f2
  show ?thesis
    by (simp add: prod_eq_iff)
qed

subsection \<open>C5: Create without a token address\<close>

text \<open>
  C5. A Create without \<^verbatim>\<open>tokenAddress\<close> is to skip the ownership check and succeed
  as a fresh insert. The check is skipped, but the lookup of the existing record then
  calls \<^verbatim>\<open>toLowerCase\<close> on the missing address: every such call ends in status 500
  and writes nothing.
\<close>

theorem post_handler_without_token_address:
  "post_handler now d (metadata\<lparr>body_tokenAddress := None\<rparr>) user_address
     = (Error 500 ''Failed to save token metadata'', d)"
  by (simp add: post_handler_def truthy_def)

subsection \<open>C9: UploadLogo\<close>

lemma upload_logo_handler_Logo:
  assumes "a \<noteq> []"
      and "upload_logo_handler e now d (Some a) file u base = (Logo url, d')"
  shows "\<exists>rows. update_token_metadata now (toLowerCase a)
                   (\<lambda>r. r\<lparr>logo_url := Some url, updated_at := now,
                          last_updated_by := Some (toLowerCase u)\<rparr>) d = Some (rows, d')"
  using assms
  by (auto simp: upload_logo_handler_def truthy_def Let_def
           split: list.splits option.splits if_splits)

lemma upload_logo_handler_owner:
  assumes "a \<noteq> []" and "tokenOwner d a = Some (toLowerCase u)"
  shows "upload_logo_handler e now d (Some a) (Some f) u base =
           (case update_token_metadata now (toLowerCase a)
                   (\<lambda>r. r\<lparr>logo_url := Some (upload_url e (Some a) f base), updated_at := now,
                          last_updated_by := Some (toLowerCase u)\<rparr>) d of
              None \<Rightarrow> (Error 500 ''Failed to upload logo'', d)
            | Some (rows, d') \<Rightarrow> (Logo (upload_url e (Some a) f base), d'))"
  using assms
  by (auto simp: upload_logo_handler_def tokenOwner_def Let_def split: list.splits option.splits)

lemma update_token_metadata_none_matching:
  "select_token_metadata d k = [] \<Longrightarrow> update_token_metadata now k f d = Some ([], d)"
  by (simp add: update_token_metadata_def select_token_metadata_def update_rows_none_matching)

text \<open>
  C9 (amended). For UploadLogo with a token address: when the call answers with a
  URL, every record of that token carries the URL in \<^verbatim>\<open>logo_url\<close> and the caller in
  \<^verbatim>\<open>last_updated_by\<close>, and no record appeared or vanished; when the token has no
  record, the owner's call is answered with the URL all the same and the store is
  unchanged; and when the UPDATE that persists the URL raises, the call is answered
  with status 500 "Failed to upload logo" and the store is unchanged.
\<close>

theorem upload_logo_handler_persists_or_reports:
  assumes "a \<noteq> []"
  shows "(\<forall>upl url d'.
            upload_logo_handler e now d (Some a) upl u base = (Logo url, d') \<longrightarrow>
              length (select_token_metadata d' (toLowerCase a))
                = length (select_token_metadata d (toLowerCase a))
            \<and> (\<forall>r \<in> set (select_token_metadata d' (toLowerCase a)).
                  logo_url r = Some url \<and> last_updated_by r = Some (toLowerCase u))
            \<and> (select_token_metadata d (toLowerCase a) = [] \<longrightarrow> d' = d))
       \<and> (\<forall>f. tokenOwner d a = Some (toLowerCase u) \<and>
                select_token_metadata d (toLowerCase a) = [] \<longrightarrow>
              upload_logo_handler e now d (Some a) (Some f) u base
                = (Logo (upload_url e (Some a) f base), d))
       \<and> (\<forall>f. tokenOwner d a = Some (toLowerCase u) \<and>
                update_token_metadata now (toLowerCase a)
                  (\<lambda>r. r\<lparr>logo_url := Some (upload_url e (Some a) f base), updated_at := now,
                         last_updated_by := Some (toLowerCase u)\<rparr>) d = None \<longrightarrow>
              upload_logo_handler e now d (Some a) (Some f) u base
                = (Error 500 ''Failed to upload logo'', d))"
proof (intro conjI allI impI)
  fix upl url d'
  assume l: "upload_logo_handler e now d (Some a) upl u base = (Logo url, d')"
  let ?k = "toLowerCase a"
  let ?f = "\<lambda>r. r\<lparr>logo_url := Some url, updated_at := now, last_updated_by := Some (toLowerCase u)\<rparr>"
  from upload_logo_handler_Logo [OF assms l] obtain rows where
    u: "update_token_metadata now ?k ?f d = Some (rows, d')"
    by blast
  have s: "select_token_metadata d' ?k =
             map (\<lambda>r. if token_address r = ?k
                       then (?f r)\<lparr>update_count := update_count r + 1, updated_at := now\<rparr> else r)
               (select_token_metadata d ?k)"
    by (rule select_after_update [OF u]) simp
  from s show "length (select_token_metadata d' ?k) = length (select_token_metadata d ?k)"
    by simp
  from s show "\<forall>r \<in> set (select_token_metadata d' ?k).
                  logo_url r = Some url \<and> last_updated_by r = Some (toLowerCase u)"
    by (auto simp: select_token_metadata_def)
  show "d' = d" if "select_token_metadata d ?k = []"
    using update_token_metadata_none_matching [OF that, of now ?f] u by simp
next
  fix f
  assume "tokenOwner d a = Some (toLowerCase u) \<and> select_token_metadata d (toLowerCase a) = []"
  then show "upload_logo_handler e now d (Some a) (Some f) u base
               = (Logo (upload_url e (Some a) f base), d)"
    by (simp add: upload_logo_handler_owner [OF assms] update_token_metadata_none_matching)
next
  fix f
  assume "tokenOwner d a = Some (toLowerCase u) \<and>
                update_token_metadata now (toLowerCase a)
                  (\<lambda>r. r\<lparr>logo_url := Some (upload_url e (Some a) f base), updated_at := now,
                         last_updated_by := Some (toLowerCase u)\<rparr>) d = None"
  then show "upload_logo_handler e now d (Some a) (Some f) u base
               = (Error 500 ''Failed to upload logo'', d)"
    by (simp add: upload_logo_handler_owner [OF assms])
qed

text \<open>
  The owner uploads a logo three times: for the example record (persisted), for the
  token without a record (answered with the URL, nothing written), and for the record
  whose \<^verbatim>\<open>update_count\<close> cannot grow (the trigger raises, status 500).
\<close>

theorem upload_logo_handler_persists_or_reports_witness:
  "''0xToken1'' \<noteq> []
 \<and> tokenOwner example_db ''0xToken1'' = Some (toLowerCase ''0xBBB'')
 \<and> upload_logo_handler example_env 20 example_db (Some ''0xToken1'') (Some example_file)
      ''0xBBB'' ''http://host''
     = (Logo ''http://host/uploads/logo-1.png'', example_db_uploaded)
 \<and> select_token_metadata example_db (toLowerCase ''0xToken1'') = [example_record]
 \<and> select_token_metadata example_db_uploaded (toLowerCase ''0xToken1'') = [example_uploaded]
 \<and> logo_url example_uploaded = Some ''http://host/uploads/logo-1.png''
 \<and> last_updated_by example_uploaded = Some (toLowerCase ''0xBBB'')
 \<and> select_token_metadata example_db_no_record (toLowerCase ''0xToken1'') = []
 \<and> upload_logo_handler example_env 20 example_db_no_record (Some ''0xToken1'') (Some example_file)
      ''0xBBB'' ''http://host''
     = (Logo (upload_url example_env (Some ''0xToken1'') example_file ''http://host''),
        example_db_no_record)
 \<and> update_token_metadata 20 (toLowerCase ''0xToken1'')
      (\<lambda>r. r\<lparr>logo_url := Some (upload_url example_env (Some ''0xToken1'') example_file ''http://host''),
             updated_at := 20, last_updated_by := Some (toLowerCase ''0xBBB'')\<rparr>) example_db_full
     = None
 \<and> upload_logo_handler example_env 20 example_db_full (Some ''0xToken1'') (Some example_file)
      ''0xBBB'' ''http://host''
     = (Error 500 ''Failed to upload logo'', example_db_full)"
proof -
  have a: "''0xToken1'' \<noteq> []"
    by simp
  have o: "tokenOwner example_db ''0xToken1'' = Some (toLowerCase ''0xBBB'')"
    and o1: "tokenOwner example_db_no_record ''0xToken1'' = Some (toLowerCase ''0xBBB'')"
    and o2: "tokenOwner example_db_full ''0xToken1'' = Some (toLowerCase ''0xBBB'')"
    by code_simp+
  have h: "upload_logo_handler example_env 20 example_db (Some ''0xToken1'') (Some example_file)
             ''0xBBB'' ''http://host''
           = (Logo ''http://host/uploads/logo-1.png'', example_db_uploaded)"
    by code_simp
  have r: "select_token_metadata example_db (toLowerCase ''0xToken1'') = [example_record]"
    by code_simp
  have r': "select_token_metadata example_db_uploaded (toLowerCase ''0xToken1'') = [example_uploaded]"
    by code_simp
  have n: "select_token_metadata example_db_no_record (toLowerCase ''0xToken1'') = []"
    by code_simp
  have x: "update_token_metadata 20 (toLowerCase ''0xToken1'')
      (\<lambda>r. r\<lparr>logo_url := Some (upload_url example_env (Some ''0xToken1'') example_file ''http://host''),
             updated_at := 20, last_updated_by := Some (toLowerCase ''0xBBB'')\<rparr>) example_db_full
     = None"
    by code_simp
  note t = upload_logo_handler_persists_or_reports [OF a, of example_env 20 _ "''0xBBB''" "''http://host''"]
  note t1 = t [of example_db, THEN conjunct1, rule_format, OF h]
  note t2 = t [of example_db_no_record, THEN conjunct2, THEN conjunct1, rule_format,
               OF conjI [OF o1 n]]
  note t3 = t [of example_db_full, THEN conjunct2, THEN conjunct2, rule_format,
               OF conjI [OF o2 x]]
  from t1 r' have "logo_url example_uploaded = Some ''http://host/uploads/logo-1.png''"
    "last_updated_by example_uploaded = Some (toLowerCase ''0xBBB'')"
    by simp_all
  with a o h r r' n t2 x t3 show ?thesis
    by (intro conjI)
qed

text \<open>
  C9 as stated fails: the token exists and has no metadata record; the owner's upload
  is answered with the URL although the UPDATE matched no row and nothing was
  persisted.
\<close>

theorem upload_logo_handler_success_without_record:
  "upload_logo_handler example_env 20 example_db_no_record (Some ''0xToken1'') (Some example_file)
      ''0xBBB'' ''http://host''
     = (Logo ''http://host/uploads/logo-1.png'', example_db_no_record) \<and>
   select_token_metadata example_db_no_record (toLowerCase ''0xToken1'') = []"
  by code_simp

subsection \<open>C7: the trigger on \<^verbatim>\<open>tokens\<close>\<close>






subsection \<open>C8: every UPDATE is tracked\<close>

lemma new_metadata_row_update_count: "update_count (new_metadata_row now a s logo who n) = n"
  by (simp add: new_metadata_row_def)

lemma effect_same:
  "token_metadata d' = token_metadata d \<Longrightarrow>
   token_metadata_history d' = token_metadata_history d \<Longrightarrow> metadata_effect now d d'"
  by (simp add: metadata_effect_def)

lemma effect_insert:
  "insert_token_metadata r d0 = Some (r', d1) \<Longrightarrow>
   update_count r = 1 \<Longrightarrow>
   token_metadata d0 = token_metadata d \<Longrightarrow>
   token_metadata_history d0 = token_metadata_history d \<Longrightarrow>
   token_metadata d' = token_metadata d1 \<Longrightarrow>
   token_metadata_history d' = token_metadata_history d1 \<Longrightarrow> metadata_effect now d d'"
  unfolding metadata_effect_def insert_token_metadata_def
  by (auto split: if_splits)

lemma effect_update:
  "update_token_metadata now k f d = Some (rows, d'') \<Longrightarrow>
   (\<And>r. token_address (f r) = token_address r) \<Longrightarrow>
   token_metadata d' = token_metadata d'' \<Longrightarrow>
   token_metadata_history d' = token_metadata_history d'' \<Longrightarrow> metadata_effect now d d'"
  unfolding metadata_effect_def by blast

lemma temporary_handler_effect: "metadata_effect now d (snd (temporary_handler now d body u))"
  by (rule effect_same)
     (auto simp: temporary_handler_def update_temporary_metadata_def
        insert_temporary_metadata_def Let_def split: option.splits list.splits if_splits)

lemma put_handler_effect: "metadata_effect now d (snd (put_handler now d a m u))"
proof (cases "update_token_metadata now (toLowerCase a)
                (\<lambda>r. (set_descriptive m r)\<lparr>logo_url := body_logoUrl m, updated_at := now\<rparr>) d")
  case None
  then show ?thesis
    by (auto simp: put_handler_def Let_def split: list.splits intro: effect_same)
next
  case (Some p)
  obtain rows d'' where p: "p = (rows, d'')"
    by (cases p)
  have u: "metadata_effect now d d''"
    using Some unfolding p
    by (rule effect_update) (simp_all add: set_descriptive_token_address)
  have "snd (put_handler now d a m u) = d \<or> snd (put_handler now d a m u) = d''"
    using Some p by (auto simp: put_handler_def Let_def split: list.splits)
  with u show ?thesis
    by (auto intro: effect_same)
qed

lemma verify_handler_effect: "metadata_effect now d (snd (verify_handler e now d a u))"
proof (cases "update_token_metadata now (toLowerCase a)
                (\<lambda>r. r\<lparr>verified := True, updated_at := now\<rparr>) d")
  case None
  then show ?thesis
    by (auto simp: verify_handler_def Let_def intro: effect_same)
next
  case (Some p)
  obtain rows d'' where p: "p = (rows, d'')"
    by (cases p)
  have u: "metadata_effect now d d''"
    using Some unfolding p
    by (rule effect_update) simp_all
  have "snd (verify_handler e now d a u) = d \<or> snd (verify_handler e now d a u) = d''"
    using Some p by (auto simp: verify_handler_def Let_def split: list.splits)
  with u show ?thesis
    by (auto intro: effect_same)
qed

lemma upload_logo_handler_effect:
  "metadata_effect now d (snd (upload_logo_handler e now d a upl u base))"
proof (cases a)
  case None
  then show ?thesis
    by (auto simp: upload_logo_handler_def truthy_def Let_def split: option.splits intro: effect_same)
next
  case (Some ta)
  show ?thesis
  proof (cases upl)
    case None
    then show ?thesis
      by (auto simp: upload_logo_handler_def intro: effect_same)
  next
    case (Some f)
    let ?u = "update_token_metadata now (toLowerCase ta)
                (\<lambda>r. r\<lparr>logo_url := Some (upload_url e (Some ta) f base), updated_at := now,
                       last_updated_by := Some (toLowerCase u)\<rparr>) d"
    show ?thesis
    proof (cases ?u)
      case None
      with \<open>a = Some ta\<close> \<open>upl = Some f\<close> show ?thesis
        by (auto simp: upload_logo_handler_def truthy_def Let_def
              split: list.splits intro: effect_same)
    next
      case (Some p)
      obtain rows d'' where p: "p = (rows, d'')"
        by (cases p)
      have e: "metadata_effect now d d''"
        using Some unfolding p
        by (rule effect_update) simp_all
      have "snd (upload_logo_handler e now d a upl u base) = d
          \<or> snd (upload_logo_handler e now d a upl u base) = d''"
        using Some p \<open>a = Some ta\<close> \<open>upl = Some f\<close>
        by (auto simp: upload_logo_handler_def truthy_def Let_def split: list.splits)
      with e show ?thesis
        by (auto intro: effect_same)
    qed
  qed
qed

lemma delete_session_metadata:
  "token_metadata (delete_session sid d) = token_metadata d"
  "token_metadata_history (delete_session sid d) = token_metadata_history d"
  by (simp_all add: delete_session_def)

lemma link_handler_effect: "metadata_effect now d (snd (link_handler e now d a sid u))"
  unfolding link_handler_def Let_def
  by (auto split: option.splits list.splits
        intro: effect_same elim: effect_update effect_insert
        simp: delete_session_metadata set_descriptive_token_address
          new_metadata_row_update_count)

lemma post_handler_effect: "metadata_effect now d (snd (post_handler now d m u))"
  unfolding post_handler_def Let_def
  by (auto split: option.splits list.splits
        intro: effect_same elim: effect_update effect_insert
        simp: set_descriptive_token_address new_metadata_row_update_count)

lemma insert_token_effect: "insert_token now new d = Some d' \<Longrightarrow> metadata_effect now d d'"
  unfolding insert_token_def link_temporary_metadata_def
  by (auto split: option.splits if_splits intro: effect_same elim: effect_insert
        simp: new_metadata_row_update_count)

lemma cleanup_expired_metadata_effect: "metadata_effect now d (cleanup_expired_metadata now d)"
  by (rule effect_same) (simp_all add: cleanup_expired_metadata_def)

lemma step_effect: "metadata_effect (fst q) d (step e q d)"
proof (cases q)
  case (Pair now req)
  show ?thesis
    unfolding Pair
    by (cases req)
       (auto simp: temporary_handler_effect link_handler_effect verify_handler_effect
          post_handler_effect put_handler_effect upload_logo_handler_effect
          cleanup_expired_metadata_effect
          intro: effect_same insert_token_effect split: option.splits)
qed

lemma length_select_history:
  "length (select_history d k) =
     length (filter (\<lambda>h. history_token_address h = k) (token_metadata_history d))"
  by (simp add: select_history_def)

lemma select_token_metadata_key:
  "select_token_metadata d k = [r] \<Longrightarrow> token_address r = k \<and> r \<in> set (token_metadata d)"
  by (auto simp: select_token_metadata_def filter_eq_Cons_iff)

lemma effect_tracked:
  assumes "metadata_effect now d d'" and "select_token_metadata d k = [r]"
  shows "\<exists>r'. select_token_metadata d' k = [r'] \<and> update_count r \<le> update_count r' \<and>
           int (length (select_history d' k))
             = int (length (select_history d k)) + (update_count r' - update_count r)"
proof -
  note key = select_token_metadata_key [OF assms(2)]
  from assms(1) consider
      (same) "token_metadata d' = token_metadata d"
             "token_metadata_history d' = token_metadata_history d"
    | (ins) x where "token_address x \<notin> set (map token_address (token_metadata d))"
             "update_count x = 1"
             "token_metadata d' = token_metadata d @ [x]"
             "token_metadata_history d' = token_metadata_history d"
    | (upd) k0 f rows d'' where "\<And>r. token_address (f r) = token_address r"
             "update_token_metadata now k0 f d = Some (rows, d'')"
             "token_metadata d' = token_metadata d''"
             "token_metadata_history d' = token_metadata_history d''"
    unfolding metadata_effect_def by blast
  then show ?thesis
  proof cases
    case same
    with assms(2) show ?thesis
      by (simp add: select_token_metadata_def length_select_history)
  next
    case ins
    from ins(1) key have "token_address x \<noteq> k"
      by auto
    with ins assms(2) show ?thesis
      by (simp add: select_token_metadata_def length_select_history)
  next
    case upd
    let ?g = "\<lambda>r. if token_address r = k0
                   then (f r)\<lparr>update_count := update_count r + 1, updated_at := now\<rparr> else r"
    have "select_token_metadata d'' k = map ?g (select_token_metadata d k)"
      by (rule select_after_update [OF upd(2)]) (rule upd(1))
    with upd(3) assms(2) have s: "select_token_metadata d' k = [?g r]"
      by (simp add: select_token_metadata_def)
    from update_token_metadata_Some(5) [OF upd(2)] upd(4) obtain hs where
      h: "token_metadata_history d' = token_metadata_history d @ hs"
         "map previous_data hs = select_token_metadata d k0"
         "\<forall>h \<in> set hs. history_token_address h = k0"
      by auto
    show ?thesis
    proof (cases "k0 = k")
      case True
      with h(2) assms(2) obtain x where "hs = [x]"
        by auto
      with h(1,3) True have "length (select_history d' k) = length (select_history d k) + 1"
        by (simp add: length_select_history)
      with s True key show ?thesis
        by simp
    next
      case False
      with h(3) have "filter (\<lambda>h. history_token_address h = k) hs = []"
        by (auto simp: filter_empty_conv)
      with h(1) have "length (select_history d' k) = length (select_history d k)"
        by (simp add: length_select_history)
      with s False key show ?thesis
        by simp
    qed
  qed
qed

lemma run_tracked:
  "select_token_metadata d k = [r] \<Longrightarrow>
     \<exists>r'. select_token_metadata (run e reqs d) k = [r'] \<and> update_count r \<le> update_count r' \<and>
       int (length (select_history (run e reqs d) k)) - int (length (select_history d k))
         = update_count r' - update_count r"
proof (induction reqs arbitrary: d r)
  case Nil
  then show ?case
    by (simp add: run_def)
next
  case (Cons q reqs)
  from effect_tracked [OF step_effect [where q = q and e = e] Cons.prems] obtain r1 where
    r1: "select_token_metadata (step e q d) k = [r1]" "update_count r \<le> update_count r1"
        "int (length (select_history (step e q d) k))
           = int (length (select_history d k)) + (update_count r1 - update_count r)"
    by blast
  from Cons.IH [OF r1(1)] obtain r' where
    r': "select_token_metadata (run e reqs (step e q d)) k = [r']"
        "update_count r1 \<le> update_count r'"
        "int (length (select_history (run e reqs (step e q d)) k))
           - int (length (select_history (step e q d) k)) = update_count r' - update_count r1"
    by blast
  have "run e (q # reqs) d = run e reqs (step e q d)"
    by (simp add: run_def)
  with r1 r' show ?case
    by auto
qed

lemma update_keeps_keys:
  assumes "update_token_metadata now k f d = Some (rows, d')"
      and "\<And>r. token_address (f r) = token_address r"
  shows "map token_address (token_metadata d') = map token_address (token_metadata d)"
  unfolding update_token_metadata_Some(3) [OF assms(1)]
  by (simp add: comp_def assms(2))

lemma effect_keys:
  assumes "metadata_effect now d d'"
  shows "map token_address (token_metadata d') = map token_address (token_metadata d)
       \<or> (\<exists>x. token_address x \<notin> set (map token_address (token_metadata d)) \<and>
              update_count x = 1 \<and> token_metadata d' = token_metadata d @ [x] \<and>
              token_metadata_history d' = token_metadata_history d)"
proof -
  from assms consider
      (same) "token_metadata d' = token_metadata d"
    | (ins) x where "token_address x \<notin> set (map token_address (token_metadata d))"
             "update_count x = 1"
             "token_metadata d' = token_metadata d @ [x]"
             "token_metadata_history d' = token_metadata_history d"
    | (upd) k0 f rows d'' where "\<And>r. token_address (f r) = token_address r"
             "update_token_metadata now k0 f d = Some (rows, d'')"
             "token_metadata d' = token_metadata d''"
    unfolding metadata_effect_def by blast
  then show ?thesis
  proof cases
    case same
    then show ?thesis by simp
  next
    case ins
    then show ?thesis by blast
  next
    case upd
    from update_keeps_keys [OF upd(2) upd(1)] upd(3)
    show ?thesis by simp
  qed
qed

lemma effect_history_keys:
  assumes "metadata_effect now d d'"
      and "\<forall>h \<in> set (token_metadata_history d).
             history_token_address h \<in> set (map token_address (token_metadata d))"
  shows "\<forall>h \<in> set (token_metadata_history d').
           history_token_address h \<in> set (map token_address (token_metadata d'))"
proof -
  from assms(1) consider
      (same) "token_metadata d' = token_metadata d"
             "token_metadata_history d' = token_metadata_history d"
    | (ins) x where "token_metadata d' = token_metadata d @ [x]"
             "token_metadata_history d' = token_metadata_history d"
    | (upd) k0 f rows d'' where "\<And>r. token_address (f r) = token_address r"
             "update_token_metadata now k0 f d = Some (rows, d'')"
             "token_metadata d' = token_metadata d''"
             "token_metadata_history d' = token_metadata_history d''"
    unfolding metadata_effect_def by blast
  then show ?thesis
  proof cases
    case same
    with assms(2) show ?thesis by simp
  next
    case ins
    with assms(2) show ?thesis by auto
  next
    case upd
    from update_keeps_keys [OF upd(2) upd(1)] upd(3)
    have keys: "set (map token_address (token_metadata d')) = set (map token_address (token_metadata d))"
      by simp
    from update_token_metadata_Some(5) [OF upd(2)] upd(4) obtain hs where
      h: "token_metadata_history d' = token_metadata_history d @ hs"
         "map previous_data hs = select_token_metadata d k0"
         "\<forall>h \<in> set hs. history_token_address h = k0"
      by auto
    have "\<forall>h \<in> set hs. history_token_address h \<in> set (map token_address (token_metadata d))"
    proof
      fix x assume x: "x \<in> set hs"
      with h(2) have "previous_data x \<in> set (select_token_metadata d k0)"
        by (metis image_eqI set_map)
      then have "k0 \<in> set (map token_address (token_metadata d))"
        by (auto simp: select_token_metadata_def)
      with h(3) x show "history_token_address x \<in> set (map token_address (token_metadata d))"
        by simp
    qed
    with assms(2) h(1) keys show ?thesis
      by auto
  qed
qed

lemma effect_invariant:
  assumes "metadata_effect now d d'" and "history_invariant d"
  shows "history_invariant d'"
proof -
  from assms(2) have
    dist: "distinct (map token_address (token_metadata d))" and
    cnt: "\<forall>r \<in> set (token_metadata d).
            int (length (select_history d (token_address r))) = update_count r - 1" and
    hk: "\<forall>h \<in> set (token_metadata_history d).
            history_token_address h \<in> set (map token_address (token_metadata d))"
    by (simp_all add: history_invariant_def)
  note keys = effect_keys [OF assms(1)]
  from keys dist have dist': "distinct (map token_address (token_metadata d'))"
    by auto
  have cnt': "\<forall>r' \<in> set (token_metadata d').
            int (length (select_history d' (token_address r'))) = update_count r' - 1"
  proof
    fix r' assume r': "r' \<in> set (token_metadata d')"
    let ?k = "token_address r'"
    show "int (length (select_history d' ?k)) = update_count r' - 1"
    proof (cases "?k \<in> set (map token_address (token_metadata d))")
      case True
      with filter_key_distinct [OF dist, of ?k] obtain r where
        r: "select_token_metadata d ?k = [r]"
        by (auto simp: select_token_metadata_def filter_empty_conv)
      from effect_tracked [OF assms(1) r] obtain r'' where
        t: "select_token_metadata d' ?k = [r'']"
           "int (length (select_history d' ?k))
              = int (length (select_history d ?k)) + (update_count r'' - update_count r)"
        by blast
      from r' have "r' \<in> set (select_token_metadata d' ?k)"
        by (simp add: select_token_metadata_def)
      with t(1) have "r'' = r'"
        by simp
      moreover from cnt select_token_metadata_key [OF r]
      have "int (length (select_history d ?k)) = update_count r - 1"
        by auto
      ultimately show ?thesis
        using t(2) by simp
    next
      case False
      with keys r' obtain x where
        x: "update_count x = 1" "token_metadata d' = token_metadata d @ [x]"
           "token_metadata_history d' = token_metadata_history d"
        by (metis image_eqI set_map)
      with False r' have "r' = x"
        by auto
      moreover have "\<forall>h \<in> set (token_metadata_history d). history_token_address h \<noteq> ?k"
      proof (intro ballI notI)
        fix h assume "h \<in> set (token_metadata_history d)" "history_token_address h = ?k"
        with hk have "?k \<in> set (map token_address (token_metadata d))"
          by metis
        with False show False
          by simp
      qed
      then have "filter (\<lambda>h. history_token_address h = ?k) (token_metadata_history d) = []"
        by (simp add: filter_empty_conv)
      ultimately show ?thesis
        using x by (simp add: length_select_history)
    qed
  qed
  from dist' cnt' effect_history_keys [OF assms(1) hk] show ?thesis
    by (simp add: history_invariant_def)
qed

lemma run_invariant: "history_invariant d \<Longrightarrow> history_invariant (run e reqs d)"
proof (induction reqs arbitrary: d)
  case Nil
  then show ?case by (simp add: run_def)
next
  case (Cons q reqs)
  from effect_invariant [OF step_effect Cons.prems]
  have "history_invariant (step e q d)" .
  from Cons.IH [OF this] show ?case
    by (simp add: run_def)
qed

lemma history_invariant_empty: "history_invariant empty_db"
  by (simp add: history_invariant_def empty_db_def)

lemma verify_handler_Row:
  assumes "verify_handler e now d a u = (Row r', d')"
  shows "\<exists>rows. update_token_metadata now (toLowerCase a)
                   (\<lambda>r. r\<lparr>verified := True, updated_at := now\<rparr>) d = Some (r' # rows, d')"
  using assms
  by (auto simp: verify_handler_def Let_def split: list.splits if_splits option.splits)

text \<open>
  C8. Every successful UPDATE of a \<^verbatim>\<open>token_metadata\<close> row appends exactly one history
  row whose \<^verbatim>\<open>previous_data\<close> is the row as it was, and raises \<^verbatim>\<open>update_count\<close> by
  exactly 1: for the UPDATE statement with any assignments, and so for the one Verify
  issues and the one UploadLogo issues to persist the URL. Hence over any run of
  requests (the routes, inserts into \<^verbatim>\<open>tokens\<close>, the sweep) the \<^verbatim>\<open>update_count\<close> of a
  record never decreases and grows by exactly the number of history rows written for
  its token; and in every store reached from the empty one a record has
  \<^verbatim>\<open>update_count\<close> - 1 history rows, 1 being the count every creating statement sets.
\<close>

theorem every_update_is_tracked:
  "(\<forall>k f r rows d'.
       select_token_metadata d k = [r] \<and> update_token_metadata now k f d = Some (rows, d') \<longrightarrow>
         (\<exists>r' who. rows = [r'] \<and> update_count r' = update_count r + 1 \<and>
            token_metadata_history d' = token_metadata_history d @
              [\<lparr>history_token_address = k, updated_by = who,
                update_timestamp = now, previous_data = r\<rparr>]))
 \<and> (\<forall>a u r r' d'.
       select_token_metadata d (toLowerCase a) = [r] \<and> verify_handler e now d a u = (Row r', d') \<longrightarrow>
         update_count r' = update_count r + 1 \<and>
         (\<exists>who. token_metadata_history d' = token_metadata_history d @
              [\<lparr>history_token_address = toLowerCase a, updated_by = who,
                update_timestamp = now, previous_data = r\<rparr>]))
 \<and> (\<forall>a upl u base r url d'.
       a \<noteq> [] \<and> select_token_metadata d (toLowerCase a) = [r] \<and>
       upload_logo_handler e now d (Some a) upl u base = (Logo url, d') \<longrightarrow>
         (\<exists>r' who. select_token_metadata d' (toLowerCase a) = [r'] \<and>
            logo_url r' = Some url \<and> update_count r' = update_count r + 1 \<and>
            token_metadata_history d' = token_metadata_history d @
              [\<lparr>history_token_address = toLowerCase a, updated_by = who,
                update_timestamp = now, previous_data = r\<rparr>]))
 \<and> (\<forall>k r reqs.
       select_token_metadata d k = [r] \<longrightarrow>
         (\<exists>r'. select_token_metadata (run e reqs d) k = [r'] \<and>
            update_count r \<le> update_count r' \<and>
            int (length (select_history (run e reqs d) k)) - int (length (select_history d k))
              = update_count r' - update_count r))
 \<and> (\<forall>reqs r.
       r \<in> set (token_metadata (run e reqs empty_db)) \<longrightarrow>
         int (length (select_history (run e reqs empty_db) (token_address r)))
           = update_count r - 1)"
proof (intro conjI allI impI)
  fix k f r rows d'
  assume "select_token_metadata d k = [r] \<and> update_token_metadata now k f d = Some (rows, d')"
  then have s: "select_token_metadata d k = [r]" and u: "update_token_metadata now k f d = Some (rows, d')"
    by simp_all
  from update_token_metadata_one [OF u s]
  show "\<exists>r' who. rows = [r'] \<and> update_count r' = update_count r + 1 \<and>
            token_metadata_history d' = token_metadata_history d @
              [\<lparr>history_token_address = k, updated_by = who,
                update_timestamp = now, previous_data = r\<rparr>]"
    by auto
next
  fix a u r r' d'
  assume "select_token_metadata d (toLowerCase a) = [r] \<and> verify_handler e now d a u = (Row r', d')"
  then have s: "select_token_metadata d (toLowerCase a) = [r]"
    and v: "verify_handler e now d a u = (Row r', d')"
    by simp_all
  from verify_handler_Row [OF v] obtain rows where
    u: "update_token_metadata now (toLowerCase a)
          (\<lambda>r. r\<lparr>verified := True, updated_at := now\<rparr>) d = Some (r' # rows, d')"
    by blast
  from update_token_metadata_one [OF u s]
  show "update_count r' = update_count r + 1"
    by auto
  from update_token_metadata_one [OF u s]
  show "\<exists>who. token_metadata_history d' = token_metadata_history d @
              [\<lparr>history_token_address = toLowerCase a, updated_by = who,
                update_timestamp = now, previous_data = r\<rparr>]"
    by auto
next
  fix a upl u base r url d'
  assume "a \<noteq> [] \<and> select_token_metadata d (toLowerCase a) = [r] \<and>
       upload_logo_handler e now d (Some a) upl u base = (Logo url, d')"
  then have a: "a \<noteq> []" and s: "select_token_metadata d (toLowerCase a) = [r]"
    and l: "upload_logo_handler e now d (Some a) upl u base = (Logo url, d')"
    by simp_all
  let ?f = "\<lambda>r. r\<lparr>logo_url := Some url, updated_at := now, last_updated_by := Some (toLowerCase u)\<rparr>"
  from upload_logo_handler_Logo [OF a l] obtain rows where
    u: "update_token_metadata now (toLowerCase a) ?f d = Some (rows, d')"
    by blast
  have "select_token_metadata d' (toLowerCase a) =
          map (\<lambda>r. if token_address r = toLowerCase a
                    then (?f r)\<lparr>update_count := update_count r + 1, updated_at := now\<rparr> else r)
            (select_token_metadata d (toLowerCase a))"
    by (rule select_after_update [OF u]) simp
  with s select_token_metadata_key [OF s]
  have "select_token_metadata d' (toLowerCase a)
          = [(?f r)\<lparr>update_count := update_count r + 1, updated_at := now\<rparr>]"
    by simp
  with update_token_metadata_one(2) [OF u s]
  show "\<exists>r' who. select_token_metadata d' (toLowerCase a) = [r'] \<and>
            logo_url r' = Some url \<and> update_count r' = update_count r + 1 \<and>
            token_metadata_history d' = token_metadata_history d @
              [\<lparr>history_token_address = toLowerCase a, updated_by = who,
                update_timestamp = now, previous_data = r\<rparr>]"
    by auto
next
  fix k r reqs
  assume "select_token_metadata d k = [r]"
  then show "\<exists>r'. select_token_metadata (run e reqs d) k = [r'] \<and>
            update_count r \<le> update_count r' \<and>
            int (length (select_history (run e reqs d) k)) - int (length (select_history d k))
              = update_count r' - update_count r"
    by (rule run_tracked)
next
  fix reqs r
  assume "r \<in> set (token_metadata (run e reqs empty_db))"
  with run_invariant [OF history_invariant_empty, of e reqs]
  show "int (length (select_history (run e reqs empty_db) (token_address r)))
          = update_count r - 1"
    by (simp add: history_invariant_def)
qed



text \<open>
  At the example store: the Verify statement, Verify by an admin, an upload by the
  owner, a run of five requests (three of them updating: the count goes from 1 to 4
  with three history rows), and a run from the empty store that creates the record
  and updates it once.
\<close>

theorem every_update_is_tracked_witness:
  "select_token_metadata example_db (toLowerCase ''0xToken1'') = [example_record]
 \<and> update_token_metadata 20 (toLowerCase ''0xToken1'')
       (\<lambda>r. r\<lparr>verified := True, updated_at := 20\<rparr>) example_db
     = Some ([example_verified], example_db_verified)
 \<and> (\<exists>r' who. [example_verified] = [r'] \<and> update_count r' = update_count example_record + 1 \<and>
        token_metadata_history example_db_verified = token_metadata_history example_db @
          [\<lparr>history_token_address = toLowerCase ''0xToken1'', updated_by = who,
            update_timestamp = 20, previous_data = example_record\<rparr>])
 \<and> verify_handler example_env 20 example_db ''0xToken1'' ''0xEEE''
     = (Row example_verified, example_db_verified)
 \<and> update_count example_verified = update_count example_record + 1
 \<and> ''0xToken1'' \<noteq> []
 \<and> upload_logo_handler example_env 20 example_db (Some ''0xToken1'') (Some example_file)
       ''0xBBB'' ''http://host''
     = (Logo ''http://host/uploads/logo-1.png'', example_db_uploaded)
 \<and> (\<exists>r' who. select_token_metadata example_db_uploaded (toLowerCase ''0xToken1'') = [r'] \<and>
        logo_url r' = Some ''http://host/uploads/logo-1.png'' \<and>
        update_count r' = update_count example_record + 1 \<and>
        token_metadata_history example_db_uploaded = token_metadata_history example_db @
          [\<lparr>history_token_address = toLowerCase ''0xToken1'', updated_by = who,
            update_timestamp = 20, previous_data = example_record\<rparr>])
 \<and> (\<exists>r'. select_token_metadata (run example_env example_requests example_db)
              (toLowerCase ''0xToken1'') = [r'] \<and>
        update_count example_record \<le> update_count r' \<and>
        int (length (select_history (run example_env example_requests example_db)
                       (toLowerCase ''0xToken1'')))
          - int (length (select_history example_db (toLowerCase ''0xToken1'')))
          = update_count r' - update_count example_record)
 \<and> token_metadata (run example_env example_history empty_db) = [example_created]
 \<and> int (length (select_history (run example_env example_history empty_db)
                   (token_address example_created)))
      = update_count example_created - 1"
proof -
  have c: "token_metadata (run example_env example_history empty_db) = [example_created]"
    by code_simp
  then have m: "example_created \<in> set (token_metadata (run example_env example_history empty_db))"
    by simp
  have s: "select_token_metadata example_db (toLowerCase ''0xToken1'') = [example_record]"
    by code_simp
  have u: "update_token_metadata 20 (toLowerCase ''0xToken1'')
             (\<lambda>r. r\<lparr>verified := True, updated_at := 20\<rparr>) example_db
           = Some ([example_verified], example_db_verified)"
    by code_simp
  have v: "verify_handler example_env 20 example_db ''0xToken1'' ''0xEEE''
           = (Row example_verified, example_db_verified)"
    by code_simp
  have a: "''0xToken1'' \<noteq> []"
    by simp
  have l: "upload_logo_handler example_env 20 example_db (Some ''0xToken1'') (Some example_file)
             ''0xBBB'' ''http://host''
           = (Logo ''http://host/uploads/logo-1.png'', example_db_uploaded)"
    by code_simp
  note t = every_update_is_tracked [of example_db 20 example_env]
  note t1 = t [THEN conjunct1, rule_format, OF conjI [OF s u]]
  note t2 = t [THEN conjunct2, THEN conjunct1, rule_format, OF conjI [OF s v]]
  note t3 = t [THEN conjunct2, THEN conjunct2, THEN conjunct1, rule_format,
               OF conjI [OF a conjI [OF s l]]]
  note t4 = t [THEN conjunct2, THEN conjunct2, THEN conjunct2, THEN conjunct1, rule_format,
               OF s, of example_requests]
  note t5 = t [THEN conjunct2, THEN conjunct2, THEN conjunct2, THEN conjunct2, rule_format,
               OF m]
  from s u v a l t1 t2 [THEN conjunct1] t3 t4 c t5 show ?thesis
    by (intro conjI)
qed

subsection \<open>C10: Get\<close>

text \<open>
  C10. Get answers a mixed-case spelling of an address exactly as it answers the
  lowercase form of that spelling: the same record, or not found for both.
\<close>

theorem get_handler_case_insensitive:
  "get_handler d tokenAddress = get_handler d (toLowerCase tokenAddress)"
  by (simp add: get_handler_def toLowerCase_idem)

end
